theory Spec2Isabelle
  imports Main
begin

section \<open>Text helpers shared by the generated scripts and URLs\<close>

text \<open>
  JavaScript strings are modelled as \<open>string\<close> (a list of bytes, the UTF-8 form that
  the script file and the URL carry).  The reserved characters are named once.
\<close>

definition dquote :: char where
  "dquote = CHR 0x22"

definition backslash :: char where
  "backslash = CHR 0x5C"

definition newline :: char where
  "newline = CHR 0x0A"

definition tab :: char where
  "tab = CHR 0x09"

definition cret :: char where
  "cret = CHR 0x0D"

section \<open>Script string literals: \<open>escapeString\<close> and its inverse\<close>

text \<open>
  Modelled from the spec: \<open>AppleScriptBridge.escapeString\<close> lives in
  \<open>utils/applescript.ts\<close>, which is not among the sources; only its call sites in
  the automation templates are (every interpolation \<open>"${bridge.escapeString(x)}"\<close>).
  The spec (4.1) says that values embedded in script text are escaped against the
  scripting language's string-literal syntax, naming the quote and the backslash: each
  of the two is prefixed by a backslash, every other character is kept.
\<close>

definition escapeChar :: "char \<Rightarrow> string" where
  "escapeChar c = (if c = backslash \<or> c = dquote then [backslash, c] else [c])"

definition escapeString :: "string \<Rightarrow> string" where
  "escapeString s = concat (map escapeChar s)"

text \<open>
  The inverse parser of section 8: the body of a script string literal is read up to its
  closing quote.  After a backslash the scripting language accepts the quote, the
  backslash and the letters \<open>n\<close>, \<open>r\<close>, \<open>t\<close>; anything else is a syntax error
  (\<open>None\<close>), as is a literal that never closes.  The result is the text denoted and the
  script text that follows the closing quote.
\<close>

definition escapeCode :: "char \<Rightarrow> char option" where
  "escapeCode c =
     (if c = dquote then Some dquote
      else if c = backslash then Some backslash
      else if c = CHR ''n'' then Some newline
      else if c = CHR ''r'' then Some cret
      else if c = CHR ''t'' then Some tab
      else None)"

fun readLiteral :: "string \<Rightarrow> (string \<times> string) option" where
  "readLiteral [] = None"
| "readLiteral [c] = (if c = dquote then Some ([], []) else None)"
| "readLiteral (c # d # cs) =
     (if c = dquote then Some ([], d # cs)
      else if c = backslash then
        (case escapeCode d of
           None \<Rightarrow> None
         | Some e \<Rightarrow> map_option (\<lambda>(s, r). (e # s, r)) (readLiteral cs))
      else map_option (\<lambda>(s, r). (c # s, r)) (readLiteral (d # cs)))"

definition unescapeString :: "string \<Rightarrow> string option" where
  "unescapeString s =
     (case readLiteral (s @ [dquote]) of
        Some (t, []) \<Rightarrow> Some t
      | _ \<Rightarrow> None)"

section \<open>Splitting, joining, trimming, numbers as text\<close>

text \<open>
  \<open>String.prototype.split\<close> with a one-character separator (the empty string splits
  into one empty field) and \<open>Array.prototype.join\<close>.
\<close>

fun split_on :: "char \<Rightarrow> string \<Rightarrow> string list" where
  "split_on sep [] = [[]]"
| "split_on sep (c # cs) =
     (if c = sep then [] # split_on sep cs
      else (case split_on sep cs of
              [] \<Rightarrow> [[c]]
            | f # fs \<Rightarrow> (c # f) # fs))"

fun join :: "string \<Rightarrow> string list \<Rightarrow> string" where
  "join sep [] = []"
| "join sep [x] = x"
| "join sep (x # y # ys) = x @ sep @ join sep (y # ys)"

text \<open>
  \<open>String.prototype.trim\<close> on the ASCII white space (tab, line feed, vertical tab,
  form feed, carriage return, space).
\<close>

definition is_js_space :: "char \<Rightarrow> bool" where
  "is_js_space c = (c \<in> set [CHR 0x09, CHR 0x0A, CHR 0x0B, CHR 0x0C, CHR 0x0D, CHR 0x20])"

definition js_trim :: "string \<Rightarrow> string" where
  "js_trim s = rev (dropWhile is_js_space (rev (dropWhile is_js_space s)))"

text \<open>Decimal text of a natural number and of an integer, as both hosts print them.\<close>

definition digit_char :: "nat \<Rightarrow> char" where
  "digit_char d = char_of (48 + d)"

fun show_nat :: "nat \<Rightarrow> string" where
  "show_nat n = (if n < 10 then [digit_char n] else show_nat (n div 10) @ [digit_char (n mod 10)])"

declare show_nat.simps [simp del]

definition show_int :: "int \<Rightarrow> string" where
  "show_int i = (if i < 0 then CHR ''-'' # show_nat (nat (- i)) else show_nat (nat i))"

text \<open>
  The global \<open>parseInt\<close> with no radix: leading white space is skipped, a sign is
  read, a \<open>0x\<close> prefix selects base sixteen, the longest run of digits is the value,
  and no digit at all is \<open>NaN\<close> (\<open>None\<close>).
\<close>

definition is_digit :: "char \<Rightarrow> bool" where
  "is_digit c = (48 \<le> (of_char c :: nat) \<and> (of_char c :: nat) \<le> 57)"

definition hex_value :: "char \<Rightarrow> nat option" where
  "hex_value c =
     (let n = (of_char c :: nat) in
      if 48 \<le> n \<and> n \<le> 57 then Some (n - 48)
      else if 65 \<le> n \<and> n \<le> 70 then Some (n - 55)
      else if 97 \<le> n \<and> n \<le> 102 then Some (n - 87)
      else None)"

definition digits_value :: "nat \<Rightarrow> string \<Rightarrow> nat" where
  "digits_value base ds = foldl (\<lambda>a c. base * a + the (hex_value c)) 0 ds"

definition parse_radix :: "string \<Rightarrow> nat option" where
  "parse_radix s =
     (case s of
        c # x # hs \<Rightarrow>
          if c = CHR ''0'' \<and> (x = CHR ''x'' \<or> x = CHR ''X'') then
            (let ds = takeWhile (\<lambda>h. hex_value h \<noteq> None) hs
             in if ds = [] then None else Some (digits_value 16 ds))
          else
            (let ds = takeWhile is_digit s
             in if ds = [] then None else Some (digits_value 10 ds))
      | _ \<Rightarrow>
          (let ds = takeWhile is_digit s
           in if ds = [] then None else Some (digits_value 10 ds)))"

definition parseInt :: "string \<Rightarrow> int option" where
  "parseInt s =
     (case dropWhile is_js_space s of
        [] \<Rightarrow> None
      | c # cs \<Rightarrow>
          if c = CHR ''-'' then map_option (\<lambda>n. - int n) (parse_radix cs)
          else if c = CHR ''+'' then map_option int (parse_radix cs)
          else map_option int (parse_radix (c # cs)))"

section \<open>Errors\<close>

text \<open>
  \<open>ErrorType\<close> and \<open>Things3Error\<close> of \<open>types/index.ts\<close>; \<open>JsError\<close> is any other
  thrown \<open>Error\<close>, with its message.
\<close>

datatype error_type =
  THINGS_NOT_RUNNING | APPLESCRIPT_ERROR | INVALID_PARAMETER | NOT_FOUND
  | TIMEOUT | UNKNOWN | INVALID_REFERENCE

datatype error =
  JsError string
  | Things3Error error_type string "error option"

text \<open>
  The \<open>catch\<close> block every tool method ends with: a \<open>Things3Error\<close> is thrown on as it
  is, anything else is wrapped as \<open>UNKNOWN\<close> with the method's message.
\<close>

fun rethrow :: "string \<Rightarrow> error \<Rightarrow> error" where
  "rethrow msg (Things3Error t m d) = Things3Error t m d"
| "rethrow msg (JsError m) = Things3Error UNKNOWN msg (Some (JsError m))"

section \<open>JavaScript values and their text\<close>

text \<open>
  The values a parameter map or a JSON document holds.  \<open>JNum\<close> carries an integer
  Number (below \<open>10^21\<close>, where \<open>String\<close> prints plain decimal digits); \<open>JObj\<close> is a
  plain object, its entries in property order.
\<close>

datatype jsvalue =
  JUndefined
  | JNull
  | JBool bool
  | JNum int
  | JStr string
  | JArr "jsvalue list"
  | JObj "(string \<times> jsvalue) list"

text \<open>
  \<open>String(value)\<close>.  An array prints as its elements joined by commas, where
  \<open>null\<close> and \<open>undefined\<close> elements print as nothing.
\<close>

fun js_String :: "jsvalue \<Rightarrow> string" where
  "js_String JUndefined = ''undefined''"
| "js_String JNull = ''null''"
| "js_String (JBool b) = (if b then ''true'' else ''false'')"
| "js_String (JNum n) = show_int n"
| "js_String (JStr s) = s"
| "js_String (JArr xs) =
     join '','' (map (\<lambda>x. if x = JNull \<or> x = JUndefined then [] else js_String x) xs)"
| "js_String (JObj kvs) = ''[object Object]''"

text \<open>\<open>Array.prototype.join\<close> on an array of values.\<close>

definition js_join :: "string \<Rightarrow> jsvalue list \<Rightarrow> string" where
  "js_join sep xs =
     join sep (map (\<lambda>x. if x = JNull \<or> x = JUndefined then [] else js_String x) xs)"

text \<open>
  \<open>JSON.stringify\<close>: \<open>None\<close> is its \<open>undefined\<close>.  A property whose value is
  \<open>undefined\<close> is left out of an object; an \<open>undefined\<close> array element prints as
  \<open>null\<close>.  Strings are quoted with the quote, the backslash and the control
  characters escaped.
\<close>

definition hex_lower :: "nat \<Rightarrow> char" where
  "hex_lower d = (if d < 10 then char_of (48 + d) else char_of (87 + d))"

definition json_char :: "char \<Rightarrow> string" where
  "json_char c =
     (if c = dquote then [backslash, dquote]
      else if c = backslash then [backslash, backslash]
      else if c = CHR 0x08 then [backslash, CHR ''b'']
      else if c = CHR 0x0C then [backslash, CHR ''f'']
      else if c = newline then [backslash, CHR ''n'']
      else if c = cret then [backslash, CHR ''r'']
      else if c = tab then [backslash, CHR ''t'']
      else if (of_char c :: nat) < 32 then
        [backslash, CHR ''u'', CHR ''0'', CHR ''0'',
         hex_lower ((of_char c :: nat) div 16), hex_lower ((of_char c :: nat) mod 16)]
      else [c])"

definition json_quote :: "string \<Rightarrow> string" where
  "json_quote s = dquote # concat (map json_char s) @ [dquote]"

fun json_stringify :: "jsvalue \<Rightarrow> string option" where
  "json_stringify JUndefined = None"
| "json_stringify JNull = Some ''null''"
| "json_stringify (JBool b) = Some (if b then ''true'' else ''false'')"
| "json_stringify (JNum n) = Some (show_int n)"
| "json_stringify (JStr s) = Some (json_quote s)"
| "json_stringify (JArr xs) =
     Some (''['' @ join '','' (map (\<lambda>x. case json_stringify x of None \<Rightarrow> ''null'' | Some t \<Rightarrow> t) xs)
           @ '']'')"
| "json_stringify (JObj kvs) =
     Some (''{'' @ join '',''
             (concat (map (\<lambda>kv. case json_stringify (snd kv) of
                                   None \<Rightarrow> []
                                 | Some t \<Rightarrow> [json_quote (fst kv) @ '':'' @ t]) kvs))
           @ ''}'')"

section \<open>URL encoding\<close>

definition hex_upper :: "nat \<Rightarrow> char" where
  "hex_upper d = (if d < 10 then char_of (48 + d) else char_of (55 + d))"

definition percent_byte :: "char \<Rightarrow> string" where
  "percent_byte c =
     [CHR ''%'', hex_upper ((of_char c :: nat) div 16), hex_upper ((of_char c :: nat) mod 16)]"

definition is_alnum :: "char \<Rightarrow> bool" where
  "is_alnum c =
     (let n = (of_char c :: nat)
      in (48 \<le> n \<and> n \<le> 57) \<or> (65 \<le> n \<and> n \<le> 90) \<or> (97 \<le> n \<and> n \<le> 122))"

text \<open>
  \<open>URLSearchParams.prototype.toString\<close>: the \<open>application/x-www-form-urlencoded\<close>
  serializer keeps letters, digits and \<open>* - . _\<close>, writes a space as \<open>+\<close> and every
  other byte as \<open>%XX\<close>; pairs are \<open>name=value\<close> joined by \<open>&\<close>.
\<close>

definition form_encode_char :: "char \<Rightarrow> string" where
  "form_encode_char c =
     (if is_alnum c \<or> c \<in> set ''*-._'' then [c]
      else if c = CHR '' '' then ''+''
      else percent_byte c)"

definition form_encode :: "string \<Rightarrow> string" where
  "form_encode s = concat (map form_encode_char s)"

definition form_serialize :: "(string \<times> string) list \<Rightarrow> string" where
  "form_serialize es = join ''&'' (map (\<lambda>(k, v). form_encode k @ ''='' @ form_encode v) es)"

text \<open>\<open>.replace(/\+/g, '%20')\<close>\<close>

definition replace_plus :: "string \<Rightarrow> string" where
  "replace_plus s = concat (map (\<lambda>c. if c = CHR ''+'' then ''%20'' else [c]) s)"

text \<open>
  \<open>encodeURIComponent\<close> keeps letters, digits and \<open>- _ . ! ~ * ' ( )\<close> and writes
  every other byte as \<open>%XX\<close>.
\<close>

definition uri_component_char :: "char \<Rightarrow> string" where
  "uri_component_char c =
     (if is_alnum c \<or> c \<in> set (''-_.!~*()'' @ [CHR 0x27]) then [c] else percent_byte c)"

definition encodeURIComponent :: "string \<Rightarrow> string" where
  "encodeURIComponent s = concat (map uri_component_char s)"

text \<open>
  The reading side of a query string (the \<open>application/x-www-form-urlencoded\<close>
  parser): the text is cut at every \<open>&\<close>, empty pieces are skipped, each piece is cut
  at its first \<open>=\<close>, and in both halves \<open>+\<close> reads as a space and \<open>%XX\<close> as the byte
  it names.
\<close>

fun percent_decode :: "string \<Rightarrow> string" where
  "percent_decode [] = []"
| "percent_decode (c # a # b # rest) =
     (if c = CHR ''%'' \<and> hex_value a \<noteq> None \<and> hex_value b \<noteq> None
      then char_of (16 * the (hex_value a) + the (hex_value b)) # percent_decode rest
      else (if c = CHR ''+'' then CHR '' '' else c) # percent_decode (a # b # rest))"
| "percent_decode (c # cs) = (if c = CHR ''+'' then CHR '' '' else c) # percent_decode cs"

definition split_pair :: "string \<Rightarrow> string \<times> string" where
  "split_pair f = (takeWhile (\<lambda>c. c \<noteq> CHR ''='') f, drop 1 (dropWhile (\<lambda>c. c \<noteq> CHR ''='') f))"

definition parse_query :: "string \<Rightarrow> (string \<times> string) list" where
  "parse_query s =
     map (\<lambda>f. case split_pair f of (k, v) \<Rightarrow> (percent_decode k, percent_decode v))
       (filter (\<lambda>f. f \<noteq> []) (split_on (CHR ''&'') s))"

text \<open>One \<open>name=value\<close> piece of the query string \<open>buildUrl\<close> returns.\<close>

definition field_of :: "string \<times> string \<Rightarrow> string" where
  "field_of kv = replace_plus (form_encode (fst kv)) @ ''='' @ replace_plus (form_encode (snd kv))"

section \<open>Dates as the JavaScript runtime computes them\<close>

text \<open>
  A \<open>Date\<close> is a number of milliseconds since the epoch, in UTC.  The calendar fields
  of a day number are those of the proleptic Gregorian calendar (\<open>YearFromTime\<close>,
  \<open>MonthFromTime\<close>, \<open>DateFromTime\<close>); months count from 1 here, which the equality
  tests below do not notice.
\<close>

definition ms_per_day :: int where
  "ms_per_day = 86400000"

definition civil_from_days :: "int \<Rightarrow> int \<times> int \<times> int" where
  "civil_from_days n =
     (let z = n + 719468;
          era = z div 146097;
          doe = z mod 146097;
          yoe = (doe - doe div 1460 + doe div 36524 - doe div 146096) div 365;
          doy = doe - (365 * yoe + yoe div 4 - yoe div 100);
          mp = (5 * doy + 2) div 153;
          d = doy - (153 * mp + 2) div 5 + 1;
          m = (if mp < 10 then mp + 3 else mp - 9);
          y = yoe + era * 400
      in (if m \<le> 2 then y + 1 else y, m, d))"

definition days_from_civil :: "int \<Rightarrow> int \<Rightarrow> int \<Rightarrow> int" where
  "days_from_civil y0 m d =
     (let y = (if m \<le> 2 then y0 - 1 else y0);
          era = y div 400;
          yoe = y mod 400;
          doy = (153 * (if 2 < m then m - 3 else m + 9) + 2) div 5 + d - 1;
          doe = yoe * 365 + yoe div 4 - yoe div 100 + doy
      in era * 146097 + doe - 719468)"

definition days_in_month :: "int \<Rightarrow> int \<Rightarrow> int" where
  "days_in_month y m =
     (if m = 2 then (if y mod 4 = 0 \<and> (y mod 100 \<noteq> 0 \<or> y mod 400 = 0) then 29 else 28)
      else if m = 4 \<or> m = 6 \<or> m = 9 \<or> m = 11 then 30
      else 31)"

text \<open>
  The clock and zone of the executing system: the current instant; the zone's rules, as
  the two readings of \<open>LocalTZA\<close>, both in milliseconds and east positive:
  \<open>local_tza t\<close> is the offset of local time from UTC in force at the UTC instant
  \<open>t\<close>, and \<open>local_tza_wall t\<close> is the offset by which the local time value \<open>t\<close>
  is read (a local time that a transition repeats or skips is read with the offset in
  force before the transition); and what \<open>new Date(s)\<close> makes of a string outside the
  forms read below (\<open>None\<close> is an invalid date).
\<close>

record clock =
  now :: int
  local_tza :: "int \<Rightarrow> int"
  local_tza_wall :: "int \<Rightarrow> int"
  other_formats :: "string \<Rightarrow> int option"

definition LocalTime :: "clock \<Rightarrow> int \<Rightarrow> int" where
  "LocalTime c t = t + local_tza c t"

definition UTC :: "clock \<Rightarrow> int \<Rightarrow> int" where
  "UTC c t = t - local_tza_wall c t"

text \<open>
  \<open>new Date(s).getTime()\<close> for the date-time string format: \<open>YYYY-MM-DD\<close> is
  midnight UTC of that day, \<open>YYYY-MM-DDTHH:mm:ssZ\<close> is a UTC time, and
  \<open>YYYY-MM-DDTHH:mm:ss\<close> without an offset is a local time.  Every other string is
  left to \<open>other_formats\<close>.
\<close>

definition read_nat :: "string \<Rightarrow> int option" where
  "read_nat s = (if s \<noteq> [] \<and> list_all is_digit s then Some (int (digits_value 10 s)) else None)"

definition parse_ymd :: "string \<Rightarrow> (int \<times> int \<times> int) option" where
  "parse_ymd s =
     (if length s = 10 \<and> s ! 4 = CHR ''-'' \<and> s ! 7 = CHR ''-'' then
        (case (read_nat (take 4 s), read_nat (take 2 (drop 5 s)), read_nat (drop 8 s)) of
           (Some y, Some m, Some d) \<Rightarrow>
             if 1 \<le> m \<and> m \<le> 12 \<and> 1 \<le> d \<and> d \<le> days_in_month y m then Some (y, m, d) else None
         | _ \<Rightarrow> None)
      else None)"

definition parse_hms :: "string \<Rightarrow> int option" where
  "parse_hms s =
     (if length s = 8 \<and> s ! 2 = CHR '':'' \<and> s ! 5 = CHR '':'' then
        (case (read_nat (take 2 s), read_nat (take 2 (drop 3 s)), read_nat (drop 6 s)) of
           (Some h, Some mi, Some se) \<Rightarrow>
             if h \<le> 23 \<and> mi \<le> 59 \<and> se \<le> 59 then Some ((h * 3600 + mi * 60 + se) * 1000) else None
         | _ \<Rightarrow> None)
      else None)"

definition date_parse :: "clock \<Rightarrow> string \<Rightarrow> int option" where
  "date_parse c s =
     (if length s = 10 then
        (case parse_ymd s of
           Some (y, m, d) \<Rightarrow> Some (days_from_civil y m d * ms_per_day)
         | None \<Rightarrow> other_formats c s)
      else if length s = 20 \<and> s ! 10 = CHR ''T'' \<and> s ! 19 = CHR ''Z'' then
        (case (parse_ymd (take 10 s), parse_hms (take 8 (drop 11 s))) of
           (Some (y, m, d), Some t) \<Rightarrow> Some (days_from_civil y m d * ms_per_day + t)
         | _ \<Rightarrow> other_formats c s)
      else if length s = 19 \<and> s ! 10 = CHR ''T'' then
        (case (parse_ymd (take 10 s), parse_hms (drop 11 s)) of
           (Some (y, m, d), Some t) \<Rightarrow>
             Some (UTC c (days_from_civil y m d * ms_per_day + t))
         | _ \<Rightarrow> other_formats c s)
      else other_formats c s)"

text \<open>
  \<open>getFullYear\<close>, \<open>getMonth\<close>, \<open>getDate\<close> read the local time of the instant;
  \<open>toISOString\<close> prints UTC, and \<open>.split('T')[0]\<close> keeps its date part (four digits
  for the years 0 to 9999, a sign and six digits otherwise).
\<close>

definition local_ymd :: "clock \<Rightarrow> int \<Rightarrow> int \<times> int \<times> int" where
  "local_ymd c t = civil_from_days (LocalTime c t div ms_per_day)"

definition getDate :: "clock \<Rightarrow> int \<Rightarrow> int" where
  "getDate c t = (case local_ymd c t of (y, m, d) \<Rightarrow> d)"

text \<open>
  \<open>setDate(dt)\<close> keeps the year, the month and the time within the day of the local
  time and replaces the day of the month: \<open>MakeDay\<close> finds the day number of the first
  of the month (a month outside 1 to 12 carries into the year) and counts on from it, so
  that a day past the end of the month runs into the next one; the new local time is
  read back as a UTC instant.
\<close>

definition MakeDay :: "int \<Rightarrow> int \<Rightarrow> int \<Rightarrow> int" where
  "MakeDay year month date =
     days_from_civil (year + (month - 1) div 12) ((month - 1) mod 12 + 1) 1 + date - 1"

definition MakeDate :: "int \<Rightarrow> int \<Rightarrow> int" where
  "MakeDate day time = day * ms_per_day + time"

definition setDate :: "clock \<Rightarrow> int \<Rightarrow> int \<Rightarrow> int" where
  "setDate c tv dt =
     (let t = LocalTime c tv
      in case civil_from_days (t div ms_per_day) of
           (y, m, d) \<Rightarrow> UTC c (MakeDate (MakeDay y m dt) (t mod ms_per_day)))"

definition utc_ymd :: "int \<Rightarrow> int \<times> int \<times> int" where
  "utc_ymd t = civil_from_days (t div ms_per_day)"

definition pad_left :: "nat \<Rightarrow> string \<Rightarrow> string" where
  "pad_left w s = replicate (w - length s) (CHR ''0'') @ s"

definition iso_ymd :: "int \<times> int \<times> int \<Rightarrow> string" where
  "iso_ymd ymd =
     (case ymd of (y, m, d) \<Rightarrow>
        (if 0 \<le> y \<and> y \<le> 9999 then pad_left 4 (show_nat (nat y))
         else (if y < 0 then ''-'' else ''+'') @ pad_left 6 (show_nat (nat \<bar>y\<bar>)))
        @ ''-'' @ pad_left 2 (show_nat (nat m)) @ ''-'' @ pad_left 2 (show_nat (nat d)))"

definition iso_date :: "int \<Rightarrow> string" where
  "iso_date t = iso_ymd (utc_ymd t)"

section \<open>\<open>URLSchemeHandler\<close>\<close>

text \<open>An attribute of an intent: absent (\<open>undefined\<close>), \<open>null\<close>, or a value.\<close>

datatype 'a tri = Absent | Null | Val 'a

subsection \<open>\<open>isSameDay\<close> and \<open>formatDateForUrl\<close>\<close>

definition isSameDay :: "clock \<Rightarrow> int \<Rightarrow> int \<Rightarrow> bool" where
  "isSameDay c date1 date2 =
     (case (local_ymd c date1, local_ymd c date2) of
        ((y1, m1, d1), (y2, m2, d2)) \<Rightarrow> y1 = y2 \<and> m1 = m2 \<and> d1 = d2)"

definition formatDateForUrl :: "clock \<Rightarrow> string tri \<Rightarrow> string option" where
  "formatDateForUrl c isoDate =
     (case isoDate of
        Absent \<Rightarrow> None
      | Null \<Rightarrow> None
      | Val s \<Rightarrow>
          if s = [] then None
          else
            (case date_parse c s of
               None \<Rightarrow> None
             | Some date \<Rightarrow>
                 (let today = now c in
                  if isSameDay c date today then Some ''today''
                  else
                    (let tomorrow = setDate c today (getDate c today + 1) in
                     if isSameDay c date tomorrow then Some ''tomorrow''
                     else Some (iso_date date)))))"

subsection \<open>The environment of the handler and the activation channel\<close>

text \<open>
  \<open>auth_token\<close> is \<open>process.env['THINGS3_AUTH_TOKEN']\<close>; the delays are those of
  \<open>getConfig().delays\<close>; \<open>open_fault url\<close> is the message with which the system's
  \<open>open\<close> command fails for that URL (\<open>None\<close>: the host accepted the launch).
\<close>

record env =
  auth_token :: "string option"
  env_clock :: clock
  delay_urlScheme :: nat
  delay_todoSearch :: nat
  open_fault :: "string \<Rightarrow> string option"

text \<open>What a call does to the outside, in order.\<close>

datatype todo_filter = Inbox | Today | Upcoming | Anytime | Someday | Logbook

datatype list_status = StatusOpen | StatusCompleted | StatusCancelled

datatype event =
  EnsureRunning
  | EnsureTags "string list"
  | OpenUrl string
  | Sleep nat
  | ListScript "todo_filter option" "list_status option" "string option"

definition getAuthToken :: "env \<Rightarrow> string option" where
  "getAuthToken e = auth_token e"

text \<open>
  \<open>if (x)\<close> on an optional string: \<open>undefined\<close> and the empty string are both falsy.
\<close>

definition truthy :: "string option \<Rightarrow> string option" where
  "truthy v = (case v of None \<Rightarrow> None | Some t \<Rightarrow> if t = [] then None else Some t)"

definition execute :: "env \<Rightarrow> string \<Rightarrow> event list \<Rightarrow> (error + unit) \<times> event list" where
  "execute e url tr =
     (case open_fault e url of
        Some m \<Rightarrow> (Inl (JsError (''URL scheme execution failed: '' @ m)), tr @ [OpenUrl url])
      | None \<Rightarrow> (Inr (), tr @ [OpenUrl url, Sleep (delay_urlScheme e)]))"

subsection \<open>\<open>buildUrl\<close> and \<open>buildJsonUrl\<close>\<close>

datatype things3_operation = ADD | ADD_PROJECT | UPDATE | UPDATE_PROJECT | SHOW | SEARCH | JSON

fun operation_name :: "things3_operation \<Rightarrow> string" where
  "operation_name ADD = ''add''"
| "operation_name ADD_PROJECT = ''add-project''"
| "operation_name UPDATE = ''update''"
| "operation_name UPDATE_PROJECT = ''update-project''"
| "operation_name SHOW = ''show''"
| "operation_name SEARCH = ''search''"
| "operation_name JSON = ''json''"

text \<open>
  The body of the \<open>forEach\<close> over \<open>Object.entries(params)\<close>: what one entry appends
  to \<open>urlParams\<close>.
\<close>

definition param_entry :: "string \<times> jsvalue \<Rightarrow> (string \<times> string) list" where
  "param_entry kv =
     (case kv of (key, val) \<Rightarrow>
        if val \<noteq> JNull \<and> val \<noteq> JUndefined then
          (case val of
             JArr xs \<Rightarrow> [(key, js_join '','' xs)]
           | JBool b \<Rightarrow> [(key, if b then ''true'' else ''false'')]
           | _ \<Rightarrow> [(key, js_String val)])
        else [])"

definition url_params :: "env \<Rightarrow> (string \<times> jsvalue) list \<Rightarrow> (string \<times> string) list" where
  "url_params e params =
     (case truthy (getAuthToken e) of None \<Rightarrow> [] | Some t \<Rightarrow> [(''auth-token'', t)])
     @ concat (map param_entry params)"

definition query_string :: "env \<Rightarrow> (string \<times> jsvalue) list \<Rightarrow> string" where
  "query_string e params = replace_plus (form_serialize (url_params e params))"

definition buildUrl :: "env \<Rightarrow> things3_operation \<Rightarrow> (string \<times> jsvalue) list \<Rightarrow> string" where
  "buildUrl e operation params =
     (let baseUrl = ''things:///'' @ operation_name operation;
          queryString = query_string e params
      in if queryString \<noteq> [] then baseUrl @ ''?'' @ queryString else baseUrl)"

definition buildJsonUrl :: "env \<Rightarrow> jsvalue list \<Rightarrow> string" where
  "buildJsonUrl e items =
     (let jsonData = (case json_stringify (JArr items) of None \<Rightarrow> [] | Some t \<Rightarrow> t);
          encodedData = encodeURIComponent jsonData
      in case truthy (getAuthToken e) of
           Some t \<Rightarrow> ''things:///json?data='' @ encodedData @ ''&auth-token='' @ t
         | None \<Rightarrow> ''things:///json?data='' @ encodedData)"

subsection \<open>\<open>URLSchemeHandler.createTodo\<close>\<close>

record url_create_params =
  c_title :: string
  c_notes :: "string option"
  c_whenDate :: "string option"
  c_deadline :: "string option"
  c_tags :: "string list option"
  c_checklistItems :: "string list option"
  c_projectId :: "string option"
  c_areaId :: "string option"
  c_heading :: "string option"

definition opt_str :: "string option \<Rightarrow> jsvalue" where
  "opt_str v = (case v of None \<Rightarrow> JUndefined | Some s \<Rightarrow> JStr s)"

definition opt_tri :: "'a option \<Rightarrow> 'a tri" where
  "opt_tri v = (case v of None \<Rightarrow> Absent | Some s \<Rightarrow> Val s)"

text \<open>\<open>a || b\<close> on optional strings: the empty string is as falsy as \<open>undefined\<close>.\<close>

definition str_or :: "string option \<Rightarrow> string option \<Rightarrow> string option" where
  "str_or a b = (case truthy a of Some s \<Rightarrow> Some s | None \<Rightarrow> b)"

definition createTodo_urlParams :: "env \<Rightarrow> url_create_params \<Rightarrow> (string \<times> jsvalue) list" where
  "createTodo_urlParams e p =
     [(''title'', JStr (c_title p)),
      (''notes'', opt_str (c_notes p)),
      (''when'', opt_str (formatDateForUrl (env_clock e) (opt_tri (c_whenDate p)))),
      (''deadline'', opt_str (formatDateForUrl (env_clock e) (opt_tri (c_deadline p)))),
      (''tags'', opt_str (map_option (join '','') (c_tags p))),
      (''list-id'', opt_str (str_or (c_projectId p) (c_areaId p))),
      (''heading'', opt_str (c_heading p))]
     @ (case c_checklistItems p of
          Some items \<Rightarrow> if 0 < length items then [(''checklist-items'', JStr (join [newline] items))] else []
        | None \<Rightarrow> [])"

definition createTodo_url :: "env \<Rightarrow> url_create_params \<Rightarrow> string" where
  "createTodo_url e p = buildUrl e ADD (createTodo_urlParams e p)"

definition url_createTodo :: "env \<Rightarrow> url_create_params \<Rightarrow> event list \<Rightarrow> (error + unit) \<times> event list" where
  "url_createTodo e p tr = execute e (createTodo_url e p) tr"

subsection \<open>\<open>URLSchemeHandler.updateTodo\<close>\<close>

record url_update_params =
  u_title :: "string option"
  u_notes :: "string option"
  u_whenDate :: "string tri"
  u_deadline :: "string tri"
  u_tags :: "string list option"
  u_completed :: "bool option"
  u_canceled :: "bool option"
  u_listId :: "string tri"

definition date_attribute :: "clock \<Rightarrow> string tri \<Rightarrow> jsvalue" where
  "date_attribute c v = (if v = Null then JStr [] else opt_str (formatDateForUrl c v))"

definition listId_attribute :: "string tri \<Rightarrow> jsvalue" where
  "listId_attribute v = (case v of Null \<Rightarrow> JStr [] | Absent \<Rightarrow> JUndefined | Val s \<Rightarrow> JStr s)"

definition auth_attribute :: "env \<Rightarrow> (string \<times> jsvalue) list" where
  "auth_attribute e = (case truthy (getAuthToken e) of None \<Rightarrow> [] | Some t \<Rightarrow> [(''auth-token'', JStr t)])"

text \<open>The object literal, with the token assigned after it.\<close>

definition updateTodo_literal :: "env \<Rightarrow> url_update_params \<Rightarrow> (string \<times> jsvalue) list" where
  "updateTodo_literal e p =
     [(''title'', opt_str (u_title p)),
      (''notes'', opt_str (u_notes p)),
      (''when'', date_attribute (env_clock e) (u_whenDate p)),
      (''deadline'', date_attribute (env_clock e) (u_deadline p)),
      (''tags'', (case u_tags p of None \<Rightarrow> JUndefined | Some ts \<Rightarrow> JArr (map JStr ts))),
      (''completed'', (case u_completed p of None \<Rightarrow> JUndefined | Some b \<Rightarrow> JBool b)),
      (''canceled'', (case u_canceled p of None \<Rightarrow> JUndefined | Some b \<Rightarrow> JBool b)),
      (''list-id'', listId_attribute (u_listId p))]
     @ auth_attribute e"

text \<open>The loop that deletes every key whose value is \<open>undefined\<close>.\<close>

definition remove_undefined :: "(string \<times> jsvalue) list \<Rightarrow> (string \<times> jsvalue) list" where
  "remove_undefined kvs = filter (\<lambda>kv. snd kv \<noteq> JUndefined) kvs"

definition updateTodo_attributes :: "env \<Rightarrow> url_update_params \<Rightarrow> (string \<times> jsvalue) list" where
  "updateTodo_attributes e p = remove_undefined (updateTodo_literal e p)"

definition update_item :: "string \<Rightarrow> (string \<times> jsvalue) list \<Rightarrow> jsvalue" where
  "update_item ident attributes =
     JObj [(''type'', JStr ''to-do''), (''id'', JStr ident), (''operation'', JStr ''update''),
           (''attributes'', JObj attributes)]"

definition updateTodo_url :: "env \<Rightarrow> string \<Rightarrow> url_update_params \<Rightarrow> string" where
  "updateTodo_url e ident p = buildJsonUrl e [update_item ident (updateTodo_attributes e p)]"

definition url_updateTodo :: "env \<Rightarrow> string \<Rightarrow> url_update_params \<Rightarrow> event list \<Rightarrow> (error + unit) \<times> event list" where
  "url_updateTodo e ident p tr = execute e (updateTodo_url e ident p) tr"

subsection \<open>\<open>URLSchemeHandler.completeTodos\<close> and \<open>uncompleteTodos\<close>\<close>

definition status_items :: "env \<Rightarrow> bool \<Rightarrow> string list \<Rightarrow> jsvalue list" where
  "status_items e done ids =
     map (\<lambda>ident. update_item ident ([(''completed'', JBool done)] @ auth_attribute e)) ids"

definition url_completeTodos :: "env \<Rightarrow> string list \<Rightarrow> event list \<Rightarrow> (error + unit) \<times> event list" where
  "url_completeTodos e ids tr = execute e (buildJsonUrl e (status_items e True ids)) tr"

definition url_uncompleteTodos :: "env \<Rightarrow> string list \<Rightarrow> event list \<Rightarrow> (error + unit) \<times> event list" where
  "url_uncompleteTodos e ids tr = execute e (buildJsonUrl e (status_items e False ids)) tr"

subsection \<open>\<open>URLSchemeHandler.removeTagsFromItems\<close>\<close>



section \<open>The host application as the automation scripts see it\<close>

datatype todo_status = Open | Completed | Canceled

text \<open>
  A to-do or project of the host: its name, its status and its \<open>tag names\<close> text
  (\<open>None\<close> is the script language's \<open>missing value\<close>).  The host maps identifiers to
  items; a reference \<open>to do id "x"\<close> to an identifier it does not know raises a script
  error.
\<close>

record item =
  item_name :: string
  item_status :: todo_status
  item_tags :: "string option"

record things =
  todos :: "string \<rightharpoonup> item"
  projects :: "string \<rightharpoonup> item"

text \<open>
  The automation bridge (\<open>utils/applescript.ts\<close>, outside the sources) either fails as a
  whole, a channel failure, or runs the script.  \<open>ensure_fault\<close> is the failure of
  \<open>ensureThings3Running\<close>, \<open>execute_fault\<close> that of \<open>execute\<close>.
\<close>

record bridge =
  ensure_fault :: "error option"
  execute_fault :: "error option"

subsection \<open>\<open>templates.deleteTodos\<close>: what the generated script does\<close>

text \<open>
  For each identifier in turn the script runs, inside \<open>try ... end try\<close>,
  \<open>set t to to do id "..."\<close>, \<open>delete t\<close>, \<open>set deletedCount to deletedCount + 1\<close>:
  an unknown identifier raises at the first line and the \<open>try\<close> swallows it.  The
  script returns the counter, which the bridge hands over as decimal text.
\<close>

fun deleteTodos_loop :: "string list \<Rightarrow> things \<Rightarrow> nat \<Rightarrow> things \<times> nat" where
  "deleteTodos_loop [] h n = (h, n)"
| "deleteTodos_loop (i # ids) h n =
     (case todos h i of
        None \<Rightarrow> deleteTodos_loop ids h n
      | Some t \<Rightarrow> deleteTodos_loop ids (h\<lparr>todos := (todos h)(i := None)\<rparr>) (n + 1))"

definition deleteTodos_script :: "string list \<Rightarrow> things \<Rightarrow> things \<times> string" where
  "deleteTodos_script ids h = (case deleteTodos_loop ids h 0 of (h', n) \<Rightarrow> (h', show_nat n))"

subsection \<open>\<open>templates.completeTodos\<close>: what the generated script does\<close>

text \<open>
  Per identifier, inside \<open>try ... end try\<close>: look the to-do up, and when its status is
  \<open>open\<close> set it to \<open>completed\<close> and add one to \<open>completedCount\<close>.
\<close>

fun completeTodos_loop :: "string list \<Rightarrow> things \<Rightarrow> nat \<Rightarrow> things \<times> nat" where
  "completeTodos_loop [] h n = (h, n)"
| "completeTodos_loop (i # ids) h n =
     (case todos h i of
        None \<Rightarrow> completeTodos_loop ids h n
      | Some t \<Rightarrow>
          if item_status t = Open then
            completeTodos_loop ids (h\<lparr>todos := (todos h)(i \<mapsto> t\<lparr>item_status := Completed\<rparr>)\<rparr>) (n + 1)
          else completeTodos_loop ids h n)"

definition completeTodos_script :: "string list \<Rightarrow> things \<Rightarrow> things \<times> string" where
  "completeTodos_script ids h = (case completeTodos_loop ids h 0 of (h', n) \<Rightarrow> (h', show_nat n))"

subsection \<open>\<open>templates.removeTagsFromItems\<close>: what the generated script does\<close>









subsection \<open>\<open>TodosTools.deleteTodos\<close>\<close>

text \<open>\<open>params.ids\<close> is one identifier or an array of them.\<close>

datatype ids_arg = OneId string | ManyIds "string list"

fun ids_of :: "ids_arg \<Rightarrow> string list" where
  "ids_of (OneId i) = [i]"
| "ids_of (ManyIds ids) = ids"

record delete_result =
  del_success :: bool
  deletedCount :: int

definition or_zero :: "int option \<Rightarrow> int" where
  "or_zero v = (case v of None \<Rightarrow> 0 | Some n \<Rightarrow> n)"

definition deleteTodos :: "bridge \<Rightarrow> ids_arg \<Rightarrow> things \<Rightarrow> (error + delete_result) \<times> things" where
  "deleteTodos b arg h =
     (case ensure_fault b of
        Some e \<Rightarrow> (Inl (rethrow ''Failed to delete TODOs'' e), h)
      | None \<Rightarrow>
          (case execute_fault b of
             Some e \<Rightarrow> (Inl (rethrow ''Failed to delete TODOs'' e), h)
           | None \<Rightarrow>
               (case deleteTodos_script (ids_of arg) h of
                  (h', result) \<Rightarrow>
                    (let n = or_zero (parseInt (js_trim result))
                     in (Inr \<lparr>del_success = (0 < n), deletedCount = n\<rparr>, h')))))"


section \<open>\<open>TodosTools\<close>: listing, creating and completing over the two channels\<close>

text \<open>
  The automation bridge as these methods meet it, call by call: given what has happened
  so far, \<open>running_fault\<close> is the error \<open>ensureThings3Running\<close> throws, \<open>tags_fault\<close>
  the error \<open>ensureTagsExist\<close> throws, and \<open>list_reply\<close> what running the listing
  script and \<open>JSON.parse\<close> of its output give for the arguments
  \<open>(filter, status, searchText)\<close> of \<open>templates.listTodos\<close>.  The host is a black box
  here: nothing is assumed about what it does with an activation.
\<close>

record todos_list_result =
  r_id :: string
  r_title :: string
  r_completed :: bool

record channels =
  running_fault :: "event list \<Rightarrow> error option"
  tags_fault :: "event list \<Rightarrow> error option"
  list_reply :: "todo_filter option \<Rightarrow> list_status option \<Rightarrow> string option \<Rightarrow> event list
                   \<Rightarrow> error + todos_list_result list"

subsection \<open>\<open>listTodos\<close>\<close>

text \<open>
  \<open>projectId\<close>, \<open>areaId\<close> and \<open>tags\<close> of \<open>TodosListParams\<close> have no effect in the
  method and are left out.
\<close>

record list_params =
  l_filter :: "todo_filter option"
  l_status :: "list_status option"
  l_searchText :: "string option"
  l_limit :: "nat option"
  l_offset :: "nat option"

definition paginate :: "list_params \<Rightarrow> 'a list \<Rightarrow> 'a list" where
  "paginate p filtered =
     (if l_offset p \<noteq> None \<or> l_limit p \<noteq> None then
        (let offset = (case l_offset p of Some n \<Rightarrow> n | None \<Rightarrow> 0);
             limit = (case l_limit p of Some n \<Rightarrow> if n = 0 then length filtered else n
                                       | None \<Rightarrow> length filtered)
         in take limit (drop offset filtered))
      else filtered)"

definition listTodos ::
  "channels \<Rightarrow> list_params \<Rightarrow> event list \<Rightarrow> (error + todos_list_result list) \<times> event list" where
  "listTodos ch p tr =
     (case running_fault ch tr of
        Some err \<Rightarrow> (Inl (rethrow ''Failed to list TODOs'' err), tr @ [EnsureRunning])
      | None \<Rightarrow>
          (let tr1 = tr @ [EnsureRunning];
               tr2 = tr1 @ [ListScript (l_filter p) (l_status p) (l_searchText p)]
           in case list_reply ch (l_filter p) (l_status p) (l_searchText p) tr1 of
                Inl err \<Rightarrow> (Inl (rethrow ''Failed to list TODOs'' err), tr2)
              | Inr found \<Rightarrow> (Inr (paginate p found), tr2)))"

subsection \<open>\<open>createTodo\<close>\<close>

text \<open>
  \<open>correctTodoCreateParams\<close> (\<open>utils/error-correction.ts\<close>) is outside the sources: the
  method is modelled from the report it returns, whose \<open>correctedData\<close> are the
  parameters used from then on.
\<close>

record correction =
  corr_type :: string
  corr_field :: string
  corr_reason :: string

record correction_report =
  hasCorrections :: bool
  corrections :: "correction list"
  correctedData :: url_create_params

record create_result =
  cr_success :: bool
  cr_id :: string
  correctionsMade :: "string list option"

text \<open>The \<open>if (x) createParams.x = x\<close> lines: an empty string is dropped, any array is kept.\<close>

definition createParams_of :: "url_create_params \<Rightarrow> url_create_params" where
  "createParams_of cp =
     \<lparr>c_title = c_title cp,
      c_notes = truthy (c_notes cp),
      c_whenDate = truthy (c_whenDate cp),
      c_deadline = truthy (c_deadline cp),
      c_tags = c_tags cp,
      c_checklistItems = c_checklistItems cp,
      c_projectId = truthy (c_projectId cp),
      c_areaId = truthy (c_areaId cp),
      c_heading = truthy (c_heading cp)\<rparr>"

definition found_result :: "correction_report \<Rightarrow> string \<Rightarrow> create_result" where
  "found_result report ident =
     \<lparr>cr_success = True, cr_id = ident,
      correctionsMade =
        (if hasCorrections report
         then Some (map (\<lambda>c. corr_type c @ '': '' @ corr_reason c) (corrections report))
         else None)\<rparr>"

definition unknown_result :: "correction_report \<Rightarrow> create_result" where
  "unknown_result report =
     \<lparr>cr_success = True, cr_id = ''unknown'',
      correctionsMade = Some (map (\<lambda>c. corr_field c @ '': '' @ corr_reason c) (corrections report))\<rparr>"

definition narrow_search :: "string \<Rightarrow> list_params" where
  "narrow_search title =
     \<lparr>l_filter = None, l_status = Some StatusOpen, l_searchText = Some title,
      l_limit = Some 10, l_offset = None\<rparr>"

definition broad_search :: list_params where
  "broad_search =
     \<lparr>l_filter = Some Inbox, l_status = Some StatusOpen, l_searchText = None,
      l_limit = Some 50, l_offset = None\<rparr>"

text \<open>The search that follows the activation, from the wait on.\<close>

definition recover_id ::
  "channels \<Rightarrow> env \<Rightarrow> correction_report \<Rightarrow> event list \<Rightarrow> (error + create_result) \<times> event list" where
  "recover_id ch e report tr =
     (let title = c_title (correctedData report);
          tr1 = tr @ [Sleep (delay_todoSearch e)]
      in case listTodos ch (narrow_search title) tr1 of
           (Inl err, tr2) \<Rightarrow> (Inl (rethrow ''Failed to create TODO'' err), tr2)
         | (Inr listed, tr2) \<Rightarrow>
             (let searchResult = filter (\<lambda>todo. r_title todo = title) listed
              in if 0 < length searchResult then
                   (Inr (found_result report (r_id (hd searchResult))), tr2)
                 else
                   (let tr3 = tr2 @ [Sleep 1000]
                    in case listTodos ch broad_search tr3 of
                         (Inl err, tr4) \<Rightarrow> (Inl (rethrow ''Failed to create TODO'' err), tr4)
                       | (Inr listed2, tr4) \<Rightarrow>
                           (case find (\<lambda>todo. r_title todo = title) listed2 of
                              Some matchingTodo \<Rightarrow> (Inr (found_result report (r_id matchingTodo)), tr4)
                            | None \<Rightarrow> (Inr (unknown_result report), tr4)))))"

definition createTodo ::
  "channels \<Rightarrow> env \<Rightarrow> correction_report \<Rightarrow> event list \<Rightarrow> (error + create_result) \<times> event list" where
  "createTodo ch e report tr =
     (case running_fault ch tr of
        Some err \<Rightarrow> (Inl (rethrow ''Failed to create TODO'' err), tr @ [EnsureRunning])
      | None \<Rightarrow>
          (let correctedParams = correctedData report;
               tr1 = tr @ [EnsureRunning];
               wanted = (case c_tags correctedParams of Some ts \<Rightarrow> if 0 < length ts then Some ts else None
                                                       | None \<Rightarrow> None);
               tagged = (case wanted of
                           Some ts \<Rightarrow> (tags_fault ch tr1, tr1 @ [EnsureTags ts])
                         | None \<Rightarrow> (None, tr1))
           in case tagged of
                (Some err, tr2) \<Rightarrow> (Inl (rethrow ''Failed to create TODO'' err), tr2)
              | (None, tr2) \<Rightarrow>
                  (case url_createTodo e (createParams_of correctedParams) tr2 of
                     (Inl err, tr3) \<Rightarrow> (Inl (rethrow ''Failed to create TODO'' err), tr3)
                   | (Inr u, tr3) \<Rightarrow> recover_id ch e report tr3)))"

subsection \<open>\<open>completeTodos\<close> and \<open>uncompleteTodos\<close>\<close>

record complete_result =
  cmp_success :: bool
  completedCount :: nat

record uncomplete_result =
  unc_success :: bool
  uncompletedCount :: nat

definition completeTodos ::
  "channels \<Rightarrow> env \<Rightarrow> ids_arg \<Rightarrow> event list \<Rightarrow> (error + complete_result) \<times> event list" where
  "completeTodos ch e arg tr =
     (case running_fault ch tr of
        Some err \<Rightarrow> (Inl (rethrow ''Failed to complete TODOs'' err), tr @ [EnsureRunning])
      | None \<Rightarrow>
          (let ids = ids_of arg in
           case url_completeTodos e ids (tr @ [EnsureRunning]) of
             (Inl err, tr1) \<Rightarrow> (Inl (rethrow ''Failed to complete TODOs'' err), tr1)
           | (Inr u, tr1) \<Rightarrow> (Inr \<lparr>cmp_success = True, completedCount = length ids\<rparr>, tr1)))"

definition uncompleteTodos ::
  "channels \<Rightarrow> env \<Rightarrow> ids_arg \<Rightarrow> event list \<Rightarrow> (error + uncomplete_result) \<times> event list" where
  "uncompleteTodos ch e arg tr =
     (case running_fault ch tr of
        Some err \<Rightarrow> (Inl (rethrow ''Failed to uncomplete TODOs'' err), tr @ [EnsureRunning])
      | None \<Rightarrow>
          (let ids = ids_of arg in
           case url_uncompleteTodos e ids (tr @ [EnsureRunning]) of
             (Inl err, tr1) \<Rightarrow> (Inl (rethrow ''Failed to uncomplete TODOs'' err), tr1)
           | (Inr u, tr1) \<Rightarrow> (Inr \<lparr>unc_success = True, uncompletedCount = length ids\<rparr>, tr1)))"

section \<open>The checklist reader (\<open>utils/database.ts\<close>)\<close>

text \<open>
  How the \<open>sqlite3\<close> child process ends, as the promise of \<open>queryDatabase\<close> sees it
  first: an \<open>error\<close> event with its message, a \<open>close\<close> event with the exit code
  (\<open>None\<close> is \<open>null\<close>, a process ended by a signal) and what was collected from
  standard output and standard error, or no event before the ten-second timer fires.
\<close>

datatype proc_outcome =
  SpawnError string
  | Closed "int option" string string
  | NoClose

definition queryDatabase :: "proc_outcome \<Rightarrow> error + string" where
  "queryDatabase r =
     (case r of
        NoClose \<Rightarrow> Inl (JsError ''SQLite query timed out after 10s'')
      | Closed code out err \<Rightarrow>
          if code \<noteq> Some 0 then
            Inl (JsError (''sqlite3 exited with code ''
                          @ (case code of None \<Rightarrow> ''null'' | Some n \<Rightarrow> show_int n) @ '': '' @ err))
          else Inr (js_trim out)
      | SpawnError m \<Rightarrow> Inl (JsError (''Failed to spawn sqlite3: '' @ m)))"

record checklist_item_row =
  row_id :: string
  row_title :: string
  row_completed :: bool

definition checklist_sql :: "string \<Rightarrow> string" where
  "checklist_sql todoId =
     (let escapedId = concat (map (\<lambda>c. if c = CHR 0x27 then [c, c] else [c]) todoId)
      in ''SELECT uuid, title, status FROM TMChecklistItem WHERE task = '' @ [CHR 0x27] @ escapedId
         @ [CHR 0x27] @ '' ORDER BY '' @ [dquote] @ ''index'' @ [dquote] @ '' ASC'')"

definition row_of_line :: "string \<Rightarrow> checklist_item_row" where
  "row_of_line line =
     (let fs = split_on tab line
      in \<lparr>row_id = (if 0 < length fs then fs ! 0 else []),
          row_title = (if 1 < length fs then fs ! 1 else []),
          row_completed = (2 < length fs \<and> fs ! 2 = ''3'')\<rparr>)"

text \<open>
  The result is the value the caller gets (\<open>Inl\<close> would be a rejected promise) and the
  lines handed to \<open>logger.error\<close>.
\<close>

definition getChecklistItems ::
  "(string \<Rightarrow> proc_outcome) \<Rightarrow> string \<Rightarrow> (error + checklist_item_row list) \<times> (string \<times> error) list" where
  "getChecklistItems sqlite todoId =
     (case queryDatabase (sqlite (checklist_sql todoId)) of
        Inr output \<Rightarrow>
          (if output = [] then (Inr [], [])
           else (Inr (map row_of_line (split_on newline output)), []))
      | Inl err \<Rightarrow> (Inr [], [(''Failed to query checklist items'', err)]))"

section \<open>Properties of the script literal encoding\<close>

lemma backslash_neq_dquote [simp]: "backslash \<noteq> dquote" "dquote \<noteq> backslash"
  by (simp_all add: dquote_def backslash_def)

lemma readLiteral_plain:
  "c \<noteq> dquote \<Longrightarrow> c \<noteq> backslash \<Longrightarrow>
   readLiteral (c # cs) = map_option (\<lambda>(s, r). (c # s, r)) (readLiteral cs)"
  by (cases cs) simp_all

lemma readLiteral_escaped:
  "readLiteral (backslash # d # cs) =
     (case escapeCode d of
        None \<Rightarrow> None
      | Some e \<Rightarrow> map_option (\<lambda>(s, r). (e # s, r)) (readLiteral cs))"
  by (simp add: dquote_def backslash_def)

lemma readLiteral_close: "readLiteral (dquote # cs) = Some ([], cs)"
  by (cases cs) simp_all

lemma readLiteral_escapeString:
  "readLiteral (escapeString s @ dquote # rest) = Some (s, rest)"
proof (induction s)
  case Nil
  show ?case by (simp add: escapeString_def readLiteral_close)
next
  case (Cons c s)
  have ih: "readLiteral (concat (map escapeChar s) @ dquote # rest) = Some (s, rest)"
    using Cons.IH by (simp add: escapeString_def)
  show ?case
  proof (cases "c = backslash \<or> c = dquote")
    case True
    then have "escapeCode c = Some c"
      by (auto simp: escapeCode_def)
    with True ih show ?thesis
      by (simp add: escapeString_def escapeChar_def readLiteral_escaped)
  next
    case False
    with ih show ?thesis
      by (simp add: escapeString_def escapeChar_def readLiteral_plain)
  qed
qed

text \<open>
  C5.  For every string (in particular every string that contains a double quote, a
  backslash or a newline), escaping it for a script string literal and reading the
  result back with the inverse parser gives the original string.
\<close>

theorem escapeString_roundtrip: "unescapeString (escapeString s) = Some s"
  using readLiteral_escapeString [of s "[]"] by (simp add: unescapeString_def)

section \<open>Numbers as text: reading back what was printed\<close>

lemma of_char_digit_char: "d < 10 \<Longrightarrow> (of_char (digit_char d) :: nat) = 48 + d"
  by (simp add: digit_char_def)

lemma is_digit_digit_char: "d < 10 \<Longrightarrow> is_digit (digit_char d)"
  by (simp add: is_digit_def of_char_digit_char)

lemma hex_value_digit_char: "d < 10 \<Longrightarrow> hex_value (digit_char d) = Some d"
  by (simp add: hex_value_def of_char_digit_char Let_def)

lemma show_nat_digits: "\<forall>c \<in> set (show_nat n). is_digit c"
proof (induction n rule: show_nat.induct)
  case (1 n)
  show ?case
  proof (cases "n < 10")
    case True
    then show ?thesis
      by (subst show_nat.simps) (simp add: is_digit_digit_char)
  next
    case False
    with "1" have "\<forall>c \<in> set (show_nat (n div 10)). is_digit c" by simp
    moreover have "is_digit (digit_char (n mod 10))" by (simp add: is_digit_digit_char)
    ultimately show ?thesis using False by (subst show_nat.simps) auto
  qed
qed

lemma show_nat_not_Nil: "show_nat n \<noteq> []"
  by (subst show_nat.simps) simp

lemma digits_value_show_nat: "digits_value 10 (show_nat n) = n"
proof (induction n rule: show_nat.induct)
  case (1 n)
  show ?case
  proof (cases "n < 10")
    case True
    then show ?thesis
      by (subst show_nat.simps) (simp add: digits_value_def hex_value_digit_char)
  next
    case False
    with "1" have ih: "digits_value 10 (show_nat (n div 10)) = n div 10" by simp
    have "digits_value 10 (show_nat n)
            = 10 * digits_value 10 (show_nat (n div 10)) + n mod 10"
      using False
      by (subst show_nat.simps) (simp add: digits_value_def hex_value_digit_char)
    with ih show ?thesis by simp
  qed
qed

lemma takeWhile_all: "\<forall>c \<in> set xs. P c \<Longrightarrow> takeWhile P xs = xs"
  by (induction xs) auto

lemma parse_radix_show_nat: "parse_radix (show_nat n) = Some n"
proof -
  have all: "\<forall>c \<in> set (show_nat n). is_digit c" by (rule show_nat_digits)
  have tw: "takeWhile is_digit (show_nat n) = show_nat n"
    using all by (rule takeWhile_all)
  have notx: "\<not> is_digit (CHR ''x'')" "\<not> is_digit (CHR ''X'')"
    by (simp_all add: is_digit_def)
  show ?thesis
  proof (cases "show_nat n")
    case Nil
    then show ?thesis using show_nat_not_Nil by simp
  next
    case (Cons c cs)
    note c = this
    show ?thesis
    proof (cases cs)
      case Nil
      with c tw show ?thesis
        using digits_value_show_nat [of n] by (simp add: parse_radix_def)
    next
      case (Cons x hs)
      with c all have "is_digit x" by simp
      with notx have "x \<noteq> CHR ''x''" "x \<noteq> CHR ''X''" by auto
      with c Cons tw show ?thesis
        using digits_value_show_nat [of n] by (simp add: parse_radix_def)
    qed
  qed
qed

lemma dropWhile_none: "\<forall>c \<in> set xs. \<not> P c \<Longrightarrow> dropWhile P xs = xs"
  by (cases xs) simp_all

lemma js_trim_digits:
  assumes "\<forall>c \<in> set s. is_digit c"
  shows "js_trim s = s"
proof -
  have ns: "\<forall>c \<in> set s. \<not> is_js_space c"
    using assms by (auto simp: is_digit_def is_js_space_def)
  then have "\<forall>c \<in> set (rev s). \<not> is_js_space c" by simp
  then have "dropWhile is_js_space (rev s) = rev s" by (rule dropWhile_none)
  moreover have "dropWhile is_js_space s = s" using ns by (rule dropWhile_none)
  ultimately show ?thesis by (simp add: js_trim_def)
qed

lemma parseInt_show_nat: "parseInt (js_trim (show_nat n)) = Some (int n)"
proof -
  have all: "\<forall>c \<in> set (show_nat n). is_digit c" by (rule show_nat_digits)
  have tr: "js_trim (show_nat n) = show_nat n" by (rule js_trim_digits [OF all])
  obtain c cs where c: "show_nat n = c # cs"
    using show_nat_not_Nil [of n] by (cases "show_nat n") auto
  with all have dc: "is_digit c" by simp
  then have nc: "\<not> is_js_space c" "c \<noteq> CHR ''-''" "c \<noteq> CHR ''+''"
    by (auto simp: is_digit_def is_js_space_def)
  have pr: "parse_radix (c # cs) = Some n"
    using parse_radix_show_nat [of n] c by simp
  have "parseInt (c # cs) = Some (int n)"
    using nc pr by (simp add: parseInt_def)
  with tr c show ?thesis by simp
qed

section \<open>Batch delete\<close>

lemma deleteTodos_loop_result:
  "deleteTodos_loop ids h n =
     (h\<lparr>todos := todos h |` (- set ids)\<rparr>, n + card (set ids \<inter> dom (todos h)))"
proof (induction ids arbitrary: h n)
  case Nil
  show ?case by simp
next
  case (Cons i ids)
  show ?case
  proof (cases "todos h i")
    case None
    then have a: "set (i # ids) \<inter> dom (todos h) = set ids \<inter> dom (todos h)"
      by auto
    have b: "todos h |` (- set (i # ids)) = todos h |` (- set ids)"
      using None by (auto simp: restrict_map_def fun_eq_iff)
    show ?thesis using None Cons.IH [of h n] a b by simp
  next
    case (Some t)
    let ?h = "h\<lparr>todos := (todos h)(i := None)\<rparr>"
    have step: "deleteTodos_loop (i # ids) h n = deleteTodos_loop ids ?h (n + 1)"
      using Some by simp
    have dom: "dom (todos ?h) = dom (todos h) - {i}" by auto
    have a: "set (i # ids) \<inter> dom (todos h) = insert i (set ids \<inter> dom (todos ?h))"
      using Some dom by auto
    have "i \<notin> set ids \<inter> dom (todos ?h)" using dom by simp
    then have c: "card (set (i # ids) \<inter> dom (todos h)) = Suc (card (set ids \<inter> dom (todos ?h)))"
      unfolding a by (subst card_insert_disjoint) simp_all
    have b: "todos ?h |` (- set ids) = todos h |` (- set (i # ids))"
      by (rule ext) (simp add: restrict_map_def)
    have r: "?h\<lparr>todos := todos ?h |` (- set ids)\<rparr> = h\<lparr>todos := todos h |` (- set (i # ids))\<rparr>"
      unfolding b by simp
    show ?thesis
      unfolding step Cons.IH [of ?h "n + 1"] r c by simp
  qed
qed

lemma show_nat_small:
  "show_nat 0 = ''0''" "show_nat 1 = ''1''" "show_nat (Suc 0) = ''1''" "show_nat 2 = ''2''"
  by code_simp+

text \<open>
  C6.  When the automation channel itself works, a batch delete never raises for an
  identifier the host does not know: it reports as \<open>deletedCount\<close> the number of
  identifiers of the batch that the host knew (each of them is gone afterwards, every
  other to-do is kept), and \<open>success\<close> is true exactly when that count is positive.
\<close>

theorem deleteTodos_counts_existing:
  assumes "ensure_fault b = None" and "execute_fault b = None"
  shows "deleteTodos b arg h =
           (Inr \<lparr>del_success = (0 < card (set (ids_of arg) \<inter> dom (todos h))),
                 deletedCount = int (card (set (ids_of arg) \<inter> dom (todos h)))\<rparr>,
            h\<lparr>todos := todos h |` (- set (ids_of arg))\<rparr>)"
  using assms
  by (simp add: deleteTodos_def deleteTodos_script_def deleteTodos_loop_result
      parseInt_show_nat or_zero_def)

text \<open>
  Three identifiers of which the host knows two: the count is 2, the flag is true, the
  two are gone and the to-do outside the batch is still there.
\<close>

theorem deleteTodos_counts_existing_witness:
  "ensure_fault \<lparr>ensure_fault = None, execute_fault = None\<rparr> = None
   \<and> execute_fault \<lparr>ensure_fault = None, execute_fault = None\<rparr> = None
   \<and> fst (deleteTodos \<lparr>ensure_fault = None, execute_fault = None\<rparr>
            (ManyIds [''A'', ''B'', ''C''])
            \<lparr>todos = [''A'' \<mapsto> \<lparr>item_name = ''Buy milk'', item_status = Open, item_tags = None\<rparr>,
                      ''B'' \<mapsto> \<lparr>item_name = ''Call Ann'', item_status = Open, item_tags = None\<rparr>,
                      ''D'' \<mapsto> \<lparr>item_name = ''Pay rent'', item_status = Open, item_tags = None\<rparr>],
              projects = Map.empty\<rparr>)
       = Inr \<lparr>del_success = True, deletedCount = 2\<rparr>"
  using deleteTodos_counts_existing
    [of "\<lparr>ensure_fault = None, execute_fault = None\<rparr>" "ManyIds [''A'', ''B'', ''C'']"
        "\<lparr>todos = [''A'' \<mapsto> \<lparr>item_name = ''Buy milk'', item_status = Open, item_tags = None\<rparr>,
                   ''B'' \<mapsto> \<lparr>item_name = ''Call Ann'', item_status = Open, item_tags = None\<rparr>,
                   ''D'' \<mapsto> \<lparr>item_name = ''Pay rent'', item_status = Open, item_tags = None\<rparr>],
           projects = Map.empty\<rparr>"]
  by simp

section \<open>Batch status changes\<close>

lemma execute_ok:
  "open_fault e url = None \<Longrightarrow>
   execute e url tr = (Inr (), tr @ [OpenUrl url, Sleep (delay_urlScheme e)])"
  by (simp add: execute_def)

lemma completeTodos_accepted:
  assumes "running_fault ch tr = None"
    and "open_fault e (buildJsonUrl e (status_items e True (ids_of arg))) = None"
  shows "fst (completeTodos ch e arg tr)
           = Inr \<lparr>cmp_success = True, completedCount = length (ids_of arg)\<rparr>"
  using assms by (simp add: completeTodos_def url_completeTodos_def execute_ok Let_def)

lemma uncompleteTodos_accepted:
  assumes "running_fault ch tr = None"
    and "open_fault e (buildJsonUrl e (status_items e False (ids_of arg))) = None"
  shows "fst (uncompleteTodos ch e arg tr)
           = Inr \<lparr>unc_success = True, uncompletedCount = length (ids_of arg)\<rparr>"
  using assms by (simp add: uncompleteTodos_def url_uncompleteTodos_def execute_ok Let_def)

text \<open>
  C7.  The claim is that \<open>completedCount\<close> counts the items whose status change took
  effect.  \<open>TodosTools.completeTodos\<close> reports the length of the batch as soon as the
  activation is accepted: for the batch \<open>A\<close>, \<open>ghost\<close> it reports 2 whatever the host
  holds, while on a host that knows only \<open>A\<close> the per-item script of
  \<open>templates.completeTodos\<close> counts 1.
\<close>

theorem completeTodos_counts_unknown_id:
  "fst (completeTodos
          \<lparr>running_fault = (\<lambda>tr. None), tags_fault = (\<lambda>tr. None), list_reply = (\<lambda>f s t tr. Inr [])\<rparr>
          \<lparr>auth_token = None,
            env_clock = \<lparr>now = 0, local_tza = (\<lambda>t. 0), local_tza_wall = (\<lambda>t. 0),
                        other_formats = (\<lambda>s. None)\<rparr>,
            delay_urlScheme = 2000, delay_todoSearch = 500, open_fault = (\<lambda>url. None)\<rparr>
          (ManyIds [''A'', ''ghost'']) [])
     = Inr \<lparr>cmp_success = True, completedCount = 2\<rparr>
   \<and> snd (completeTodos_script [''A'', ''ghost'']
        \<lparr>todos = [''A'' \<mapsto> \<lparr>item_name = ''Buy milk'', item_status = Open, item_tags = None\<rparr>],
          projects = Map.empty\<rparr>) = ''1''"
  by (simp add: completeTodos_def url_completeTodos_def execute_def completeTodos_script_def
      show_nat_small)

section \<open>Failures of the checklist reader\<close>

text \<open>
  C8, as claimed: a spawn failure, a non-zero exit and the timeout of the checklist
  read reach the caller as distinguishable errors.  They do not: \<open>getChecklistItems\<close>
  answers each of them with the empty list, which is also its answer for a to-do
  without checklist items.
\<close>

theorem getChecklistItems_failures_look_empty:
  "fst (getChecklistItems (\<lambda>sql. SpawnError ''spawn sqlite3 ENOENT'') ''T1'') = Inr []
   \<and> fst (getChecklistItems (\<lambda>sql. Closed (Some 1) [] ''unable to open database file'') ''T1'') = Inr []
   \<and> fst (getChecklistItems (\<lambda>sql. NoClose) ''T1'') = Inr []
   \<and> fst (getChecklistItems (\<lambda>sql. Closed (Some 0) [] []) ''T1'') = Inr []"
  by (simp add: getChecklistItems_def queryDatabase_def js_trim_def)

text \<open>
  C8, amended.  \<open>queryDatabase\<close> rejects with three errors that differ pairwise: the
  timeout, the exit with a code other than 0 (with the code and the collected standard
  error in the message) and the spawn failure (with the system's message).
  \<open>getChecklistItems\<close> catches each of them, hands it to the logger and returns the empty
  list to its caller.
\<close>

theorem queryDatabase_distinct_errors_caught:
  assumes "code \<noteq> Some 0"
  shows "queryDatabase NoClose = Inl (JsError ''SQLite query timed out after 10s'')
    \<and> queryDatabase (SpawnError m) = Inl (JsError (''Failed to spawn sqlite3: '' @ m))
    \<and> queryDatabase (Closed code out err)
        = Inl (JsError (''sqlite3 exited with code ''
                        @ (case code of None \<Rightarrow> ''null'' | Some n \<Rightarrow> show_int n) @ '': '' @ err))
    \<and> queryDatabase NoClose \<noteq> queryDatabase (SpawnError m)
    \<and> queryDatabase (Closed code out err) \<noteq> queryDatabase NoClose
    \<and> queryDatabase (Closed code out err) \<noteq> queryDatabase (SpawnError m)
    \<and> getChecklistItems (\<lambda>sql. NoClose) todoId
        = (Inr [], [(''Failed to query checklist items'', JsError ''SQLite query timed out after 10s'')])
    \<and> getChecklistItems (\<lambda>sql. SpawnError m) todoId
        = (Inr [], [(''Failed to query checklist items'', JsError (''Failed to spawn sqlite3: '' @ m))])
    \<and> getChecklistItems (\<lambda>sql. Closed code out err) todoId
        = (Inr [], [(''Failed to query checklist items'',
                     JsError (''sqlite3 exited with code ''
                              @ (case code of None \<Rightarrow> ''null'' | Some n \<Rightarrow> show_int n) @ '': '' @ err))])"
  using assms by (simp add: queryDatabase_def getChecklistItems_def)

theorem queryDatabase_distinct_errors_caught_witness:
  "Some (1::int) \<noteq> Some 0
   \<and> queryDatabase (Closed (Some 1) [] ''unable to open database file'') \<noteq> queryDatabase NoClose
   \<and> queryDatabase (Closed (Some 1) [] ''unable to open database file'')
        \<noteq> queryDatabase (SpawnError ''spawn sqlite3 ENOENT'')
   \<and> queryDatabase NoClose \<noteq> queryDatabase (SpawnError ''spawn sqlite3 ENOENT'')
   \<and> fst (getChecklistItems (\<lambda>sql. Closed (Some 1) [] ''unable to open database file'') ''T1'') = Inr []"
  using queryDatabase_distinct_errors_caught
    [of "Some 1" "''spawn sqlite3 ENOENT''" "[]" "''unable to open database file''" "''T1''"]
  by simp

section \<open>Query strings read back\<close>

lemma of_char_hex_upper:
  "n < 16 \<Longrightarrow> (of_char (hex_upper n) :: nat) = (if n < 10 then 48 + n else 55 + n)"
  by (simp add: hex_upper_def)

lemma hex_upper_value: "n < 16 \<Longrightarrow> hex_value (hex_upper n) = Some n"
  by (simp add: hex_value_def of_char_hex_upper Let_def)

lemma char_neq_by_code: "(of_char a :: nat) \<noteq> of_char b \<Longrightarrow> a \<noteq> b"
  by auto

lemma hex_upper_plain:
  assumes "n < 16"
  shows "hex_upper n \<noteq> CHR ''+''" "hex_upper n \<noteq> CHR ''&''" "hex_upper n \<noteq> CHR ''=''"
  by (rule char_neq_by_code, simp add: of_char_hex_upper [OF assms])+

lemma of_char_div16: "(of_char c :: nat) div 16 < 16"
proof -
  have "(of_char c :: nat) < 256" by simp
  then show ?thesis by presburger
qed

lemma percent_decode_plain:
  assumes "c \<noteq> CHR ''%''" and "c \<noteq> CHR ''+''"
  shows "percent_decode (c # cs) = c # percent_decode cs"
proof (cases cs)
  case Nil
  with assms show ?thesis by simp
next
  case (Cons a as)
  with assms show ?thesis by (cases as) simp_all
qed

lemma percent_decode_byte: "percent_decode (percent_byte c @ rest) = c # percent_decode rest"
proof -
  have "char_of (16 * ((of_char c :: nat) div 16) + (of_char c :: nat) mod 16) = c"
    by simp
  then show ?thesis
    by (simp add: percent_byte_def hex_upper_value of_char_div16)
qed


lemma replace_plus_append: "replace_plus (a @ b) = replace_plus a @ replace_plus b"
  by (simp add: replace_plus_def)

lemma replace_plus_Cons:
  "replace_plus (c # s) = (if c = CHR ''+'' then ''%20'' else [c]) @ replace_plus s"
  by (simp add: replace_plus_def)

lemma replace_plus_Nil [simp]: "replace_plus [] = []"
  by (simp add: replace_plus_def)

lemma replace_plus_byte: "replace_plus (percent_byte c) = percent_byte c"
proof -
  have "hex_upper ((of_char c :: nat) div 16) \<noteq> CHR ''+''"
    by (rule hex_upper_plain) (rule of_char_div16)
  moreover have "hex_upper ((of_char c :: nat) mod 16) \<noteq> CHR ''+''"
    by (rule hex_upper_plain) simp
  ultimately show ?thesis
    by (simp add: percent_byte_def replace_plus_Cons)
qed

lemma is_alnum_plain:
  assumes "is_alnum c \<or> c \<in> set ''*-._''"
  shows "c \<noteq> CHR ''%''" "c \<noteq> CHR ''+''" "c \<noteq> CHR ''&''" "c \<noteq> CHR ''=''" "c \<noteq> CHR '' ''"
proof -
  have "(of_char c :: nat) \<in> {42, 45, 46, 95} \<or> (48 \<le> (of_char c :: nat) \<and> (of_char c :: nat) \<le> 57)
      \<or> (65 \<le> (of_char c :: nat) \<and> (of_char c :: nat) \<le> 90) \<or> (97 \<le> (of_char c :: nat) \<and> (of_char c :: nat) \<le> 122)"
    using assms by (auto simp: is_alnum_def Let_def)
  then have r: "(of_char c :: nat) \<notin> {37, 43, 38, 61, 32}" by auto
  show "c \<noteq> CHR ''%''" using r by (intro char_neq_by_code) simp
  show "c \<noteq> CHR ''+''" using r by (intro char_neq_by_code) simp
  show "c \<noteq> CHR ''&''" using r by (intro char_neq_by_code) simp
  show "c \<noteq> CHR ''=''" using r by (intro char_neq_by_code) simp
  show "c \<noteq> CHR '' ''" using r by (intro char_neq_by_code) simp
qed


lemma form_encode_Cons: "form_encode (c # s) = form_encode_char c @ form_encode s"
  by (simp add: form_encode_def)

lemma form_encode_Nil [simp]: "form_encode [] = []"
  by (simp add: form_encode_def)

lemma encoded_char_cases:
  "replace_plus (form_encode_char c) =
     (if is_alnum c \<or> c \<in> set ''*-._'' then [c]
      else if c = CHR '' '' then ''%20'' else percent_byte c)"
proof (cases "is_alnum c \<or> c \<in> set ''*-._''")
  case True
  then have "form_encode_char c = [c]" by (simp add: form_encode_char_def)
  moreover have "c \<noteq> CHR ''+''" using True by (rule is_alnum_plain)
  ultimately show ?thesis using True by (simp add: replace_plus_Cons)
next
  case False
  then show ?thesis
    by (simp add: form_encode_char_def replace_plus_byte replace_plus_Cons)
qed

lemma decode_space: "percent_decode (''%20'' @ rest) = CHR '' '' # percent_decode rest"
proof -
  have "hex_value (CHR ''2'') = Some 2" "hex_value (CHR ''0'') = Some 0"
    "char_of (32 :: nat) = CHR '' ''"
    by code_simp+
  then show ?thesis by simp
qed

lemma percent_decode_encoded_char:
  "percent_decode (replace_plus (form_encode_char c) @ rest) = c # percent_decode rest"
proof (cases "is_alnum c \<or> c \<in> set ''*-._''")
  case True
  have "c \<noteq> CHR ''%''" "c \<noteq> CHR ''+''" using True by (rule is_alnum_plain)+
  then show ?thesis using True by (simp add: encoded_char_cases percent_decode_plain)
next
  case False
  then show ?thesis
    using decode_space [of rest] by (simp add: encoded_char_cases percent_decode_byte)
qed

lemma percent_decode_encoded: "percent_decode (replace_plus (form_encode s)) = s"
  by (induction s)
    (simp_all add: form_encode_Cons replace_plus_append percent_decode_encoded_char)

lemma encoded_char_reserved:
  "CHR ''&'' \<notin> set (replace_plus (form_encode_char c))"
  "CHR ''='' \<notin> set (replace_plus (form_encode_char c))"
  "CHR ''+'' \<notin> set (replace_plus (form_encode_char c))"
proof -
  have h1: "hex_upper ((of_char c :: nat) div 16) \<noteq> CHR ''+''"
    "hex_upper ((of_char c :: nat) div 16) \<noteq> CHR ''&''"
    "hex_upper ((of_char c :: nat) div 16) \<noteq> CHR ''=''"
    by (rule hex_upper_plain, rule of_char_div16)+
  have h2: "hex_upper ((of_char c :: nat) mod 16) \<noteq> CHR ''+''"
    "hex_upper ((of_char c :: nat) mod 16) \<noteq> CHR ''&''"
    "hex_upper ((of_char c :: nat) mod 16) \<noteq> CHR ''=''"
    by (rule hex_upper_plain, simp)+
  have pb: "CHR ''&'' \<notin> set (percent_byte c)" "CHR ''='' \<notin> set (percent_byte c)"
    "CHR ''+'' \<notin> set (percent_byte c)"
    using h1 h2 by (auto simp: percent_byte_def)
  show "CHR ''&'' \<notin> set (replace_plus (form_encode_char c))"
  proof (cases "is_alnum c \<or> c \<in> set ''*-._''")
    case True
    have "c \<noteq> CHR ''&''" using True by (rule is_alnum_plain)
    then show ?thesis using True by (simp add: encoded_char_cases)
  next
    case False
    then show ?thesis using pb by (simp add: encoded_char_cases)
  qed
  show "CHR ''='' \<notin> set (replace_plus (form_encode_char c))"
  proof (cases "is_alnum c \<or> c \<in> set ''*-._''")
    case True
    have "c \<noteq> CHR ''=''" using True by (rule is_alnum_plain)
    then show ?thesis using True by (simp add: encoded_char_cases)
  next
    case False
    then show ?thesis using pb by (simp add: encoded_char_cases)
  qed
  show "CHR ''+'' \<notin> set (replace_plus (form_encode_char c))"
  proof (cases "is_alnum c \<or> c \<in> set ''*-._''")
    case True
    have "c \<noteq> CHR ''+''" using True by (rule is_alnum_plain)
    then show ?thesis using True by (simp add: encoded_char_cases)
  next
    case False
    then show ?thesis using pb by (simp add: encoded_char_cases)
  qed
qed

lemma encoded_reserved:
  "CHR ''&'' \<notin> set (replace_plus (form_encode s))"
  "CHR ''='' \<notin> set (replace_plus (form_encode s))"
  "CHR ''+'' \<notin> set (replace_plus (form_encode s))"
  by (induction s)
    (simp_all add: form_encode_Cons replace_plus_append encoded_char_reserved)


lemma join_Cons: "join sep (x # xs) = (if xs = [] then x else x @ sep @ join sep xs)"
  by (cases xs) simp_all


lemma split_on_no_sep: "sep \<notin> set f \<Longrightarrow> split_on sep f = [f]"
  by (induction f) auto

lemma split_on_field: "sep \<notin> set f \<Longrightarrow> split_on sep (f @ sep # rest) = f # split_on sep rest"
  by (induction f) auto

lemma split_on_join:
  "fs \<noteq> [] \<Longrightarrow> \<forall>f \<in> set fs. sep \<notin> set f \<Longrightarrow> split_on sep (join [sep] fs) = fs"
proof (induction fs)
  case Nil
  then show ?case by simp
next
  case (Cons f fs)
  show ?case
  proof (cases "fs = []")
    case True
    with Cons.prems show ?thesis by (simp add: split_on_no_sep)
  next
    case False
    with Cons show ?thesis by (simp add: join_Cons split_on_field)
  qed
qed

lemma split_pair_field: "CHR ''='' \<notin> set k \<Longrightarrow> split_pair (k @ CHR ''='' # v) = (k, v)"
proof -
  assume k: "CHR ''='' \<notin> set k"
  have p: "\<And>x. x \<in> set k \<Longrightarrow> x \<noteq> CHR ''=''" using k by auto
  have "takeWhile (\<lambda>c. c \<noteq> CHR ''='') (k @ CHR ''='' # v) = k"
    using takeWhile_append2 [of k "\<lambda>c. c \<noteq> CHR ''=''" "CHR ''='' # v"] p by simp
  moreover have "dropWhile (\<lambda>c. c \<noteq> CHR ''='') (k @ CHR ''='' # v) = CHR ''='' # v"
    using dropWhile_append2 [of k "\<lambda>c. c \<noteq> CHR ''=''" "CHR ''='' # v"] p by simp
  ultimately show ?thesis by (simp add: split_pair_def)
qed

lemma replace_plus_join_amp:
  "replace_plus (join ''&'' xs) = join ''&'' (map replace_plus xs)"
proof (induction xs)
  case Nil
  show ?case by simp
next
  case (Cons x xs)
  then show ?case
    by (cases "xs = []") (simp_all add: join_Cons replace_plus_append replace_plus_Cons)
qed

lemma query_fields:
  "replace_plus (form_serialize es) = join ''&'' (map field_of es)"
proof -
  have "(\<lambda>kv. replace_plus (case kv of (k, v) \<Rightarrow> form_encode k @ ''='' @ form_encode v)) = field_of"
    by (rule ext) (simp add: field_of_def case_prod_beta replace_plus_append replace_plus_Cons)
  then show ?thesis
    by (simp add: form_serialize_def replace_plus_join_amp o_def)
qed

lemma field_decodes:
  "(case split_pair (field_of kv) of (k, v) \<Rightarrow> (percent_decode k, percent_decode v)) = kv"
  using split_pair_field [OF encoded_reserved(2), of "fst kv" "replace_plus (form_encode (snd kv))"]
  by (simp add: field_of_def percent_decode_encoded)

lemma field_no_amp: "CHR ''&'' \<notin> set (field_of kv)"
  using encoded_reserved(1) by (simp add: field_of_def)

lemma field_not_Nil: "field_of kv \<noteq> []"
  by (simp add: field_of_def)

lemma parse_query_serialize: "parse_query (replace_plus (form_serialize es)) = es"
proof (cases "es = []")
  case True
  then show ?thesis by (simp add: parse_query_def form_serialize_def)
next
  case False
  have s: "split_on (CHR ''&'') (join ''&'' (map field_of es)) = map field_of es"
    using False field_no_amp by (intro split_on_join) auto
  have f: "filter (\<lambda>f. f \<noteq> []) (map field_of es) = map field_of es"
    using field_not_Nil by (simp add: filter_id_conv)
  show ?thesis
    unfolding parse_query_def query_fields s f
    by (simp add: o_def field_decodes)
qed



lemma param_entry_keys: "fst ` set (param_entry (k, v)) \<subseteq> {k}"
  by (cases v) (simp_all add: param_entry_def)

lemma param_entries_keys: "fst ` set (concat (map param_entry params)) \<subseteq> fst ` set params"
proof (induction params)
  case Nil
  show ?case by simp
next
  case (Cons kv params)
  obtain k v where kv: "kv = (k, v)" by (cases kv)
  show ?case using Cons param_entry_keys [of k v] unfolding kv by auto
qed




lemma parse_query_string: "parse_query (query_string e params) = url_params e params"
  by (simp add: query_string_def parse_query_serialize)


lemma createTodo_urlParams_keys:
  "distinct (map fst (createTodo_urlParams e p)) \<and> ''auth-token'' \<notin> fst ` set (createTodo_urlParams e p)"
  by (simp add: createTodo_urlParams_def split: option.splits)



section \<open>The documents of the JSON channel\<close>

lemma percent_byte_reserved:
  "CHR ''&'' \<notin> set (percent_byte c)" "CHR ''='' \<notin> set (percent_byte c)"
  "CHR ''+'' \<notin> set (percent_byte c)"
proof -
  have h1: "hex_upper ((of_char c :: nat) div 16) \<noteq> CHR ''+''"
    "hex_upper ((of_char c :: nat) div 16) \<noteq> CHR ''&''"
    "hex_upper ((of_char c :: nat) div 16) \<noteq> CHR ''=''"
    by (rule hex_upper_plain, rule of_char_div16)+
  have h2: "hex_upper ((of_char c :: nat) mod 16) \<noteq> CHR ''+''"
    "hex_upper ((of_char c :: nat) mod 16) \<noteq> CHR ''&''"
    "hex_upper ((of_char c :: nat) mod 16) \<noteq> CHR ''=''"
    by (rule hex_upper_plain, simp)+
  show "CHR ''&'' \<notin> set (percent_byte c)" "CHR ''='' \<notin> set (percent_byte c)"
    "CHR ''+'' \<notin> set (percent_byte c)"
    using h1 h2 by (auto simp: percent_byte_def)
qed

lemma uri_component_plain:
  assumes "is_alnum c \<or> c \<in> set (''-_.!~*()'' @ [CHR 0x27])"
  shows "c \<noteq> CHR ''%''" "c \<noteq> CHR ''+''" "c \<noteq> CHR ''&''" "c \<noteq> CHR ''=''"
proof -
  have "(of_char c :: nat) \<in> {45, 95, 46, 33, 126, 42, 40, 41, 39}
      \<or> (48 \<le> (of_char c :: nat) \<and> (of_char c :: nat) \<le> 57)
      \<or> (65 \<le> (of_char c :: nat) \<and> (of_char c :: nat) \<le> 90)
      \<or> (97 \<le> (of_char c :: nat) \<and> (of_char c :: nat) \<le> 122)"
    using assms by (auto simp: is_alnum_def Let_def)
  then have r: "(of_char c :: nat) \<notin> {37, 43, 38, 61}" by auto
  show "c \<noteq> CHR ''%''" using r by (intro char_neq_by_code) simp
  show "c \<noteq> CHR ''+''" using r by (intro char_neq_by_code) simp
  show "c \<noteq> CHR ''&''" using r by (intro char_neq_by_code) simp
  show "c \<noteq> CHR ''=''" using r by (intro char_neq_by_code) simp
qed

lemma percent_decode_component_char:
  "percent_decode (uri_component_char c @ rest) = c # percent_decode rest"
proof (cases "is_alnum c \<or> c \<in> set (''-_.!~*()'' @ [CHR 0x27])")
  case True
  have "c \<noteq> CHR ''%''" "c \<noteq> CHR ''+''" using True by (rule uri_component_plain)+
  then have "percent_decode (c # rest) = c # percent_decode rest" by (rule percent_decode_plain)
  moreover have "uri_component_char c = [c]" using True unfolding uri_component_char_def by (rule if_P)
  ultimately show ?thesis by simp
next
  case False
  then have "uri_component_char c = percent_byte c" unfolding uri_component_char_def by (rule if_not_P)
  then show ?thesis by (simp add: percent_decode_byte)
qed

lemma percent_decode_component: "percent_decode (encodeURIComponent s) = s"
  by (induction s) (simp_all add: encodeURIComponent_def percent_decode_component_char)

lemma component_char_reserved:
  "CHR ''&'' \<notin> set (uri_component_char c)" "CHR ''='' \<notin> set (uri_component_char c)"
proof -
  show "CHR ''&'' \<notin> set (uri_component_char c)"
  proof (cases "is_alnum c \<or> c \<in> set (''-_.!~*()'' @ [CHR 0x27])")
    case True
    have "c \<noteq> CHR ''&''" using True by (rule uri_component_plain)
    moreover have "uri_component_char c = [c]" using True unfolding uri_component_char_def by (rule if_P)
    ultimately show ?thesis by simp
  next
    case False
    then have "uri_component_char c = percent_byte c" unfolding uri_component_char_def by (rule if_not_P)
    then show ?thesis using percent_byte_reserved(1) by simp
  qed
  show "CHR ''='' \<notin> set (uri_component_char c)"
  proof (cases "is_alnum c \<or> c \<in> set (''-_.!~*()'' @ [CHR 0x27])")
    case True
    have "c \<noteq> CHR ''=''" using True by (rule uri_component_plain)
    moreover have "uri_component_char c = [c]" using True unfolding uri_component_char_def by (rule if_P)
    ultimately show ?thesis by simp
  next
    case False
    then have "uri_component_char c = percent_byte c" unfolding uri_component_char_def by (rule if_not_P)
    then show ?thesis using percent_byte_reserved(2) by simp
  qed
qed

lemma component_reserved:
  "CHR ''&'' \<notin> set (encodeURIComponent s)" "CHR ''='' \<notin> set (encodeURIComponent s)"
  by (induction s) (simp_all add: encodeURIComponent_def component_char_reserved)

lemma percent_decode_unreserved:
  "CHR ''%'' \<notin> set t \<Longrightarrow> CHR ''+'' \<notin> set t \<Longrightarrow> percent_decode t = t"
proof (induction t)
  case Nil
  show ?case by simp
next
  case (Cons c t)
  then have "c \<noteq> CHR ''%''" "c \<noteq> CHR ''+''" by auto
  then have "percent_decode (c # t) = c # percent_decode t" by (rule percent_decode_plain)
  with Cons show ?case by simp
qed

lemma json_url_reads_back:
  assumes "t \<noteq> []" and "CHR ''&'' \<notin> set t" and "CHR ''%'' \<notin> set t" and "CHR ''+'' \<notin> set t"
  shows "parse_query (''data='' @ encodeURIComponent d @ ''&auth-token='' @ t)
           = [(''data'', d), (''auth-token'', t)]"
proof -
  let ?f1 = "''data='' @ encodeURIComponent d"
  let ?f2 = "''auth-token='' @ t"
  have n1: "CHR ''&'' \<notin> set ?f1" using component_reserved(1) [of d] by simp
  have n2: "CHR ''&'' \<notin> set ?f2" using assms(2) by simp
  have "split_on (CHR ''&'') (?f1 @ CHR ''&'' # ?f2) = ?f1 # split_on (CHR ''&'') ?f2"
    using n1 by (rule split_on_field)
  also have "split_on (CHR ''&'') ?f2 = [?f2]" using n2 by (rule split_on_no_sep)
  finally have s: "split_on (CHR ''&'') (''data='' @ encodeURIComponent d @ ''&auth-token='' @ t) = [?f1, ?f2]"
    by simp
  have p1: "split_pair ?f1 = (''data'', encodeURIComponent d)"
    using split_pair_field [of "''data''" "encodeURIComponent d"] by simp
  have p2: "split_pair ?f2 = (''auth-token'', t)"
    using split_pair_field [of "''auth-token''" t] by simp
  have k: "percent_decode ''data'' = ''data''" "percent_decode ''auth-token'' = ''auth-token''"
    by code_simp+
  have v: "percent_decode t = t" using assms(3,4) by (rule percent_decode_unreserved)
  show ?thesis
    unfolding parse_query_def s using p1 p2
    by (simp add: k v percent_decode_component del: percent_decode.simps)
qed

lemma json_stringify_None: "json_stringify v = None \<longleftrightarrow> v = JUndefined"
  by (cases v) simp_all

lemma members_remove_undefined:
  "concat (map (\<lambda>kv. case json_stringify (snd kv) of None \<Rightarrow> []
                       | Some t \<Rightarrow> [json_quote (fst kv) @ '':'' @ t]) (remove_undefined kvs))
   = concat (map (\<lambda>kv. case json_stringify (snd kv) of None \<Rightarrow> []
                       | Some t \<Rightarrow> [json_quote (fst kv) @ '':'' @ t]) kvs)"
  by (induction kvs) (simp_all add: remove_undefined_def)

lemma update_item_text:
  "json_stringify (update_item ident attrs) =
     Some (''{'' @ json_quote ''type'' @ '':'' @ json_quote ''to-do''
           @ '','' @ json_quote ''id'' @ '':'' @ json_quote ident
           @ '','' @ json_quote ''operation'' @ '':'' @ json_quote ''update''
           @ '','' @ json_quote ''attributes'' @ '':{''
           @ join '','' (concat (map (\<lambda>kv. case json_stringify (snd kv) of None \<Rightarrow> []
                                   | Some t \<Rightarrow> [json_quote (fst kv) @ '':'' @ t]) attrs))
           @ ''}}'')"
  by (simp add: update_item_def)

lemma member_opt_str:
  "(case json_stringify (opt_str v) of None \<Rightarrow> [] | Some t \<Rightarrow> [json_quote k @ '':'' @ t])
     = (case v of None \<Rightarrow> [] | Some s \<Rightarrow> [json_quote k @ '':'' @ json_quote s])"
  by (cases v) (simp_all add: opt_str_def)

lemma member_date:
  "(case json_stringify (date_attribute c v) of None \<Rightarrow> [] | Some t \<Rightarrow> [json_quote k @ '':'' @ t])
     = (case v of Absent \<Rightarrow> []
        | Null \<Rightarrow> [json_quote k @ '':'' @ json_quote []]
        | Val s \<Rightarrow> (case formatDateForUrl c (Val s) of None \<Rightarrow> []
                     | Some d \<Rightarrow> [json_quote k @ '':'' @ json_quote d]))"
  by (cases v) (simp_all add: date_attribute_def member_opt_str formatDateForUrl_def)

lemma member_listId:
  "(case json_stringify (listId_attribute v) of None \<Rightarrow> [] | Some t \<Rightarrow> [json_quote k @ '':'' @ t])
     = (case v of Absent \<Rightarrow> []
        | Null \<Rightarrow> [json_quote k @ '':'' @ json_quote []]
        | Val s \<Rightarrow> [json_quote k @ '':'' @ json_quote s])"
  by (cases v) (simp_all add: listId_attribute_def)

lemma member_tags:
  "(case json_stringify (case v of None \<Rightarrow> JUndefined | Some ts \<Rightarrow> JArr (map JStr ts)) of
      None \<Rightarrow> [] | Some t \<Rightarrow> [json_quote k @ '':'' @ t])
     = (case v of None \<Rightarrow> []
        | Some ts \<Rightarrow> [json_quote k @ '':['' @ join '','' (map json_quote ts) @ '']''])"
  by (cases v) (simp_all add: o_def)

lemma member_bool:
  "(case json_stringify (case v of None \<Rightarrow> JUndefined | Some b \<Rightarrow> JBool b) of
      None \<Rightarrow> [] | Some t \<Rightarrow> [json_quote k @ '':'' @ t])
     = (case v of None \<Rightarrow> []
        | Some b \<Rightarrow> [json_quote k @ '':'' @ (if b then ''true'' else ''false'')])"
  by (cases v) simp_all

lemma member_auth:
  "concat (map (\<lambda>kv. case json_stringify (snd kv) of None \<Rightarrow> []
                       | Some t \<Rightarrow> [json_quote (fst kv) @ '':'' @ t]) (auth_attribute e))
     = (case truthy (auth_token e) of None \<Rightarrow> []
        | Some t \<Rightarrow> [json_quote ''auth-token'' @ '':'' @ json_quote t])"
  by (simp add: auth_attribute_def getAuthToken_def split: option.splits)

lemma updateTodo_members:
  "concat (map (\<lambda>kv. case json_stringify (snd kv) of None \<Rightarrow> []
                       | Some t \<Rightarrow> [json_quote (fst kv) @ '':'' @ t]) (updateTodo_attributes e p))
   = (case u_title p of None \<Rightarrow> [] | Some t \<Rightarrow> [json_quote ''title'' @ '':'' @ json_quote t])
     @ (case u_notes p of None \<Rightarrow> [] | Some t \<Rightarrow> [json_quote ''notes'' @ '':'' @ json_quote t])
     @ (case u_whenDate p of Absent \<Rightarrow> []
        | Null \<Rightarrow> [json_quote ''when'' @ '':'' @ json_quote []]
        | Val s \<Rightarrow> (case formatDateForUrl (env_clock e) (Val s) of None \<Rightarrow> []
                     | Some d \<Rightarrow> [json_quote ''when'' @ '':'' @ json_quote d]))
     @ (case u_deadline p of Absent \<Rightarrow> []
        | Null \<Rightarrow> [json_quote ''deadline'' @ '':'' @ json_quote []]
        | Val s \<Rightarrow> (case formatDateForUrl (env_clock e) (Val s) of None \<Rightarrow> []
                     | Some d \<Rightarrow> [json_quote ''deadline'' @ '':'' @ json_quote d]))
     @ (case u_tags p of None \<Rightarrow> []
        | Some ts \<Rightarrow> [json_quote ''tags'' @ '':['' @ join '','' (map json_quote ts) @ '']''])
     @ (case u_completed p of None \<Rightarrow> []
        | Some b \<Rightarrow> [json_quote ''completed'' @ '':'' @ (if b then ''true'' else ''false'')])
     @ (case u_canceled p of None \<Rightarrow> []
        | Some b \<Rightarrow> [json_quote ''canceled'' @ '':'' @ (if b then ''true'' else ''false'')])
     @ (case u_listId p of Absent \<Rightarrow> []
        | Null \<Rightarrow> [json_quote ''list-id'' @ '':'' @ json_quote []]
        | Val s \<Rightarrow> [json_quote ''list-id'' @ '':'' @ json_quote s])
     @ (case truthy (auth_token e) of None \<Rightarrow> []
        | Some t \<Rightarrow> [json_quote ''auth-token'' @ '':'' @ json_quote t])"
  unfolding updateTodo_attributes_def members_remove_undefined updateTodo_literal_def
  by (simp only: map_append concat_append list.map concat.simps fst_conv snd_conv append_Nil2
        member_opt_str member_date member_listId member_tags member_bool member_auth append_assoc)

lemma execute_trace:
  "snd (execute e url tr)
     = tr @ OpenUrl url # (case open_fault e url of None \<Rightarrow> [Sleep (delay_urlScheme e)] | Some m \<Rightarrow> [])"
  by (simp add: execute_def split: option.splits)

section \<open>The update document keeps the three states of an attribute\<close>

lemma map_of_remove_undefined:
  "distinct (map fst kvs) \<Longrightarrow>
   map_of (remove_undefined kvs) k =
     (case map_of kvs k of None \<Rightarrow> None | Some v \<Rightarrow> if v = JUndefined then None else Some v)"
proof (induction kvs)
  case Nil
  show ?case by (simp add: remove_undefined_def)
next
  case (Cons kv kvs)
  obtain a v where kv: "kv = (a, v)" by (cases kv)
  from Cons.prems kv have d: "distinct (map fst kvs)" and na: "a \<notin> fst ` set kvs" by auto
  have ih: "map_of (filter (\<lambda>kv. snd kv \<noteq> JUndefined) kvs) k =
     (case map_of kvs k of None \<Rightarrow> None | Some v \<Rightarrow> if v = JUndefined then None else Some v)"
    using Cons.IH [OF d] by (simp add: remove_undefined_def)
  show ?case
  proof (cases "a = k")
    case True
    with na have "map_of kvs k = None" by (simp add: map_of_eq_None_iff)
    with True kv ih show ?thesis by (simp add: remove_undefined_def)
  next
    case False
    with kv ih show ?thesis by (simp add: remove_undefined_def)
  qed
qed

lemma updateTodo_literal_distinct: "distinct (map fst (updateTodo_literal e p))"
  by (simp add: updateTodo_literal_def auth_attribute_def split: option.splits)

lemma updateTodo_attribute:
  "map_of (updateTodo_attributes e p) k =
     (case map_of (updateTodo_literal e p) k of
        None \<Rightarrow> None | Some v \<Rightarrow> if v = JUndefined then None else Some v)"
  unfolding updateTodo_attributes_def
  by (rule map_of_remove_undefined [OF updateTodo_literal_distinct])

lemma opt_str_simps [simp]:
  "opt_str None = JUndefined" "opt_str (Some s) = JStr s"
  by (simp_all add: opt_str_def)

lemma absent_iff: "k \<notin> fst ` set kvs \<longleftrightarrow> map_of kvs k = None"
  by (simp add: map_of_eq_None_iff)


text \<open>
  C3.  \<open>updateTodo\<close> hands one URL to the activation channel; its \<open>data\<close> field reads
  back as the JSON text of the update document, and that text is the to-do's type,
  identifier and operation and an attributes object with exactly these members, in this
  order: an attribute that is absent from the intent gives no member; \<open>when\<close>,
  \<open>deadline\<close> and \<open>list-id\<close> set to \<open>null\<close> give a member whose value is the empty
  string; an attribute that is set gives a member with its value (a date with its
  normalised form, when it has one).  The same is said of the attributes object key by
  key, and no key occurs twice.
\<close>

theorem updateTodo_three_states:
  "snd (url_updateTodo e ident p tr)
     = tr @ OpenUrl (updateTodo_url e ident p)
          # (case open_fault e (updateTodo_url e ident p) of
               None \<Rightarrow> [Sleep (delay_urlScheme e)] | Some m \<Rightarrow> [])
   \<and> updateTodo_url e ident p
       = ''things:///json?data=''
         @ encodeURIComponent (the (json_stringify (JArr [update_item ident (updateTodo_attributes e p)])))
         @ (case truthy (auth_token e) of None \<Rightarrow> [] | Some t \<Rightarrow> ''&auth-token='' @ t)
   \<and> percent_decode
         (encodeURIComponent (the (json_stringify (JArr [update_item ident (updateTodo_attributes e p)]))))
       = the (json_stringify (JArr [update_item ident (updateTodo_attributes e p)]))
   \<and> json_stringify (JArr [update_item ident (updateTodo_attributes e p)])
       = Some (''[{'' @ json_quote ''type'' @ '':'' @ json_quote ''to-do''
           @ '','' @ json_quote ''id'' @ '':'' @ json_quote ident
           @ '','' @ json_quote ''operation'' @ '':'' @ json_quote ''update''
           @ '','' @ json_quote ''attributes'' @ '':{''
           @ join '',''
              ((case u_title p of None \<Rightarrow> [] | Some t \<Rightarrow> [json_quote ''title'' @ '':'' @ json_quote t])
               @ (case u_notes p of None \<Rightarrow> [] | Some t \<Rightarrow> [json_quote ''notes'' @ '':'' @ json_quote t])
               @ (case u_whenDate p of Absent \<Rightarrow> []
                  | Null \<Rightarrow> [json_quote ''when'' @ '':'' @ json_quote []]
                  | Val s \<Rightarrow> (case formatDateForUrl (env_clock e) (Val s) of None \<Rightarrow> []
                               | Some d \<Rightarrow> [json_quote ''when'' @ '':'' @ json_quote d]))
               @ (case u_deadline p of Absent \<Rightarrow> []
                  | Null \<Rightarrow> [json_quote ''deadline'' @ '':'' @ json_quote []]
                  | Val s \<Rightarrow> (case formatDateForUrl (env_clock e) (Val s) of None \<Rightarrow> []
                               | Some d \<Rightarrow> [json_quote ''deadline'' @ '':'' @ json_quote d]))
               @ (case u_tags p of None \<Rightarrow> []
                  | Some ts \<Rightarrow> [json_quote ''tags'' @ '':['' @ join '','' (map json_quote ts) @ '']''])
               @ (case u_completed p of None \<Rightarrow> []
                  | Some b \<Rightarrow> [json_quote ''completed'' @ '':'' @ (if b then ''true'' else ''false'')])
               @ (case u_canceled p of None \<Rightarrow> []
                  | Some b \<Rightarrow> [json_quote ''canceled'' @ '':'' @ (if b then ''true'' else ''false'')])
               @ (case u_listId p of Absent \<Rightarrow> []
                  | Null \<Rightarrow> [json_quote ''list-id'' @ '':'' @ json_quote []]
                  | Val s \<Rightarrow> [json_quote ''list-id'' @ '':'' @ json_quote s])
               @ (case truthy (auth_token e) of None \<Rightarrow> []
                  | Some t \<Rightarrow> [json_quote ''auth-token'' @ '':'' @ json_quote t]))
           @ ''}}]'')
   \<and> (u_title p = None \<longrightarrow> ''title'' \<notin> fst ` set (updateTodo_attributes e p))
   \<and> (u_notes p = None \<longrightarrow> ''notes'' \<notin> fst ` set (updateTodo_attributes e p))
   \<and> (u_whenDate p = Absent \<longrightarrow> ''when'' \<notin> fst ` set (updateTodo_attributes e p))
   \<and> (u_deadline p = Absent \<longrightarrow> ''deadline'' \<notin> fst ` set (updateTodo_attributes e p))
   \<and> (u_tags p = None \<longrightarrow> ''tags'' \<notin> fst ` set (updateTodo_attributes e p))
   \<and> (u_completed p = None \<longrightarrow> ''completed'' \<notin> fst ` set (updateTodo_attributes e p))
   \<and> (u_canceled p = None \<longrightarrow> ''canceled'' \<notin> fst ` set (updateTodo_attributes e p))
   \<and> (u_listId p = Absent \<longrightarrow> ''list-id'' \<notin> fst ` set (updateTodo_attributes e p))
   \<and> (u_whenDate p = Null \<longrightarrow> map_of (updateTodo_attributes e p) ''when'' = Some (JStr []))
   \<and> (u_deadline p = Null \<longrightarrow> map_of (updateTodo_attributes e p) ''deadline'' = Some (JStr []))
   \<and> (u_listId p = Null \<longrightarrow> map_of (updateTodo_attributes e p) ''list-id'' = Some (JStr []))
   \<and> (\<forall>t. u_title p = Some t \<longrightarrow> map_of (updateTodo_attributes e p) ''title'' = Some (JStr t))
   \<and> (\<forall>t. u_notes p = Some t \<longrightarrow> map_of (updateTodo_attributes e p) ''notes'' = Some (JStr t))
   \<and> (\<forall>ts. u_tags p = Some ts \<longrightarrow>
          map_of (updateTodo_attributes e p) ''tags'' = Some (JArr (map JStr ts)))
   \<and> (\<forall>b. u_completed p = Some b \<longrightarrow>
          map_of (updateTodo_attributes e p) ''completed'' = Some (JBool b))
   \<and> (\<forall>b. u_canceled p = Some b \<longrightarrow>
          map_of (updateTodo_attributes e p) ''canceled'' = Some (JBool b))
   \<and> (\<forall>s. u_listId p = Val s \<longrightarrow> map_of (updateTodo_attributes e p) ''list-id'' = Some (JStr s))
   \<and> (\<forall>s d. u_whenDate p = Val s \<longrightarrow> formatDateForUrl (env_clock e) (Val s) = Some d \<longrightarrow>
          map_of (updateTodo_attributes e p) ''when'' = Some (JStr d))
   \<and> (\<forall>s d. u_deadline p = Val s \<longrightarrow> formatDateForUrl (env_clock e) (Val s) = Some d \<longrightarrow>
          map_of (updateTodo_attributes e p) ''deadline'' = Some (JStr d))
   \<and> distinct (map fst (updateTodo_attributes e p))"
proof -
  have lit: "map_of (updateTodo_literal e p) ''title'' = Some (opt_str (u_title p))"
    "map_of (updateTodo_literal e p) ''notes'' = Some (opt_str (u_notes p))"
    "map_of (updateTodo_literal e p) ''when'' = Some (date_attribute (env_clock e) (u_whenDate p))"
    "map_of (updateTodo_literal e p) ''deadline'' = Some (date_attribute (env_clock e) (u_deadline p))"
    "map_of (updateTodo_literal e p) ''tags''
       = Some (case u_tags p of None \<Rightarrow> JUndefined | Some ts \<Rightarrow> JArr (map JStr ts))"
    "map_of (updateTodo_literal e p) ''completed''
       = Some (case u_completed p of None \<Rightarrow> JUndefined | Some b \<Rightarrow> JBool b)"
    "map_of (updateTodo_literal e p) ''canceled''
       = Some (case u_canceled p of None \<Rightarrow> JUndefined | Some b \<Rightarrow> JBool b)"
    "map_of (updateTodo_literal e p) ''list-id'' = Some (listId_attribute (u_listId p))"
    by (simp_all add: updateTodo_literal_def)
  have fmt: "formatDateForUrl (env_clock e) Absent = None"
    by (simp add: formatDateForUrl_def)
  have d: "distinct (map fst (updateTodo_attributes e p))"
    unfolding updateTodo_attributes_def remove_undefined_def
    by (rule distinct_map_filter) (rule updateTodo_literal_distinct)
  have attrs: "(u_title p = None \<longrightarrow> ''title'' \<notin> fst ` set (updateTodo_attributes e p))
   \<and> (u_notes p = None \<longrightarrow> ''notes'' \<notin> fst ` set (updateTodo_attributes e p))
   \<and> (u_whenDate p = Absent \<longrightarrow> ''when'' \<notin> fst ` set (updateTodo_attributes e p))
   \<and> (u_deadline p = Absent \<longrightarrow> ''deadline'' \<notin> fst ` set (updateTodo_attributes e p))
   \<and> (u_tags p = None \<longrightarrow> ''tags'' \<notin> fst ` set (updateTodo_attributes e p))
   \<and> (u_completed p = None \<longrightarrow> ''completed'' \<notin> fst ` set (updateTodo_attributes e p))
   \<and> (u_canceled p = None \<longrightarrow> ''canceled'' \<notin> fst ` set (updateTodo_attributes e p))
   \<and> (u_listId p = Absent \<longrightarrow> ''list-id'' \<notin> fst ` set (updateTodo_attributes e p))
   \<and> (u_whenDate p = Null \<longrightarrow> map_of (updateTodo_attributes e p) ''when'' = Some (JStr []))
   \<and> (u_deadline p = Null \<longrightarrow> map_of (updateTodo_attributes e p) ''deadline'' = Some (JStr []))
   \<and> (u_listId p = Null \<longrightarrow> map_of (updateTodo_attributes e p) ''list-id'' = Some (JStr []))
   \<and> (\<forall>t. u_title p = Some t \<longrightarrow> map_of (updateTodo_attributes e p) ''title'' = Some (JStr t))
   \<and> (\<forall>t. u_notes p = Some t \<longrightarrow> map_of (updateTodo_attributes e p) ''notes'' = Some (JStr t))
   \<and> (\<forall>ts. u_tags p = Some ts \<longrightarrow>
          map_of (updateTodo_attributes e p) ''tags'' = Some (JArr (map JStr ts)))
   \<and> (\<forall>b. u_completed p = Some b \<longrightarrow>
          map_of (updateTodo_attributes e p) ''completed'' = Some (JBool b))
   \<and> (\<forall>b. u_canceled p = Some b \<longrightarrow>
          map_of (updateTodo_attributes e p) ''canceled'' = Some (JBool b))
   \<and> (\<forall>s. u_listId p = Val s \<longrightarrow> map_of (updateTodo_attributes e p) ''list-id'' = Some (JStr s))
   \<and> (\<forall>s d. u_whenDate p = Val s \<longrightarrow> formatDateForUrl (env_clock e) (Val s) = Some d \<longrightarrow>
          map_of (updateTodo_attributes e p) ''when'' = Some (JStr d))
   \<and> (\<forall>s d. u_deadline p = Val s \<longrightarrow> formatDateForUrl (env_clock e) (Val s) = Some d \<longrightarrow>
          map_of (updateTodo_attributes e p) ''deadline'' = Some (JStr d))
   \<and> distinct (map fst (updateTodo_attributes e p))"
    by (simp add: absent_iff updateTodo_attribute lit date_attribute_def listId_attribute_def fmt d)
  have emit: "snd (url_updateTodo e ident p tr)
     = tr @ OpenUrl (updateTodo_url e ident p)
          # (case open_fault e (updateTodo_url e ident p) of
               None \<Rightarrow> [Sleep (delay_urlScheme e)] | Some m \<Rightarrow> [])"
    by (simp add: url_updateTodo_def execute_trace)
  have url: "updateTodo_url e ident p
       = ''things:///json?data=''
         @ encodeURIComponent (the (json_stringify (JArr [update_item ident (updateTodo_attributes e p)])))
         @ (case truthy (auth_token e) of None \<Rightarrow> [] | Some t \<Rightarrow> ''&auth-token='' @ t)"
    by (simp add: updateTodo_url_def buildJsonUrl_def Let_def getAuthToken_def split: option.splits)
  have rb: "percent_decode
         (encodeURIComponent (the (json_stringify (JArr [update_item ident (updateTodo_attributes e p)]))))
       = the (json_stringify (JArr [update_item ident (updateTodo_attributes e p)]))"
    by (rule percent_decode_component)
  have doc: "json_stringify (JArr [update_item ident (updateTodo_attributes e p)])
       = Some (''[{'' @ json_quote ''type'' @ '':'' @ json_quote ''to-do''
           @ '','' @ json_quote ''id'' @ '':'' @ json_quote ident
           @ '','' @ json_quote ''operation'' @ '':'' @ json_quote ''update''
           @ '','' @ json_quote ''attributes'' @ '':{''
           @ join '',''
              ((case u_title p of None \<Rightarrow> [] | Some t \<Rightarrow> [json_quote ''title'' @ '':'' @ json_quote t])
               @ (case u_notes p of None \<Rightarrow> [] | Some t \<Rightarrow> [json_quote ''notes'' @ '':'' @ json_quote t])
               @ (case u_whenDate p of Absent \<Rightarrow> []
                  | Null \<Rightarrow> [json_quote ''when'' @ '':'' @ json_quote []]
                  | Val s \<Rightarrow> (case formatDateForUrl (env_clock e) (Val s) of None \<Rightarrow> []
                               | Some d \<Rightarrow> [json_quote ''when'' @ '':'' @ json_quote d]))
               @ (case u_deadline p of Absent \<Rightarrow> []
                  | Null \<Rightarrow> [json_quote ''deadline'' @ '':'' @ json_quote []]
                  | Val s \<Rightarrow> (case formatDateForUrl (env_clock e) (Val s) of None \<Rightarrow> []
                               | Some d \<Rightarrow> [json_quote ''deadline'' @ '':'' @ json_quote d]))
               @ (case u_tags p of None \<Rightarrow> []
                  | Some ts \<Rightarrow> [json_quote ''tags'' @ '':['' @ join '','' (map json_quote ts) @ '']''])
               @ (case u_completed p of None \<Rightarrow> []
                  | Some b \<Rightarrow> [json_quote ''completed'' @ '':'' @ (if b then ''true'' else ''false'')])
               @ (case u_canceled p of None \<Rightarrow> []
                  | Some b \<Rightarrow> [json_quote ''canceled'' @ '':'' @ (if b then ''true'' else ''false'')])
               @ (case u_listId p of Absent \<Rightarrow> []
                  | Null \<Rightarrow> [json_quote ''list-id'' @ '':'' @ json_quote []]
                  | Val s \<Rightarrow> [json_quote ''list-id'' @ '':'' @ json_quote s])
               @ (case truthy (auth_token e) of None \<Rightarrow> []
                  | Some t \<Rightarrow> [json_quote ''auth-token'' @ '':'' @ json_quote t]))
           @ ''}}]'')"
    using update_item_text [of ident "updateTodo_attributes e p"]
    unfolding updateTodo_members by simp
  from emit url rb doc attrs show ?thesis by (intro conjI) (elim conjE, assumption)+
qed


text \<open>
  An update that sets the title, clears the when-date and the list and leaves the rest
  alone: the URL handed over, whose document has exactly the three attributes.
\<close>

theorem updateTodo_three_states_witness:
  "u_notes \<lparr>u_title = Some ''Buy milk'', u_notes = None, u_whenDate = Null, u_deadline = Absent,
          u_tags = None, u_completed = None, u_canceled = None, u_listId = Null\<rparr> = None
   \<and> u_whenDate \<lparr>u_title = Some ''Buy milk'', u_notes = None, u_whenDate = Null, u_deadline = Absent,
          u_tags = None, u_completed = None, u_canceled = None, u_listId = Null\<rparr> = Null
   \<and> snd (url_updateTodo
        \<lparr>auth_token = None,
          env_clock = \<lparr>now = 0, local_tza = (\<lambda>t. 0), local_tza_wall = (\<lambda>t. 0),
                        other_formats = (\<lambda>s. None)\<rparr>,
          delay_urlScheme = 2000, delay_todoSearch = 500, open_fault = (\<lambda>url. None)\<rparr>
        ''ABC''
        \<lparr>u_title = Some ''Buy milk'', u_notes = None, u_whenDate = Null, u_deadline = Absent,
          u_tags = None, u_completed = None, u_canceled = None, u_listId = Null\<rparr> [])
       = [OpenUrl ''things:///json?data=%5B%7B%22type%22%3A%22to-do%22%2C%22id%22%3A%22ABC%22%2C%22operation%22%3A%22update%22%2C%22attributes%22%3A%7B%22title%22%3A%22Buy%20milk%22%2C%22when%22%3A%22%22%2C%22list-id%22%3A%22%22%7D%7D%5D'',
          Sleep 2000]
   \<and> updateTodo_attributes
        \<lparr>auth_token = None,
          env_clock = \<lparr>now = 0, local_tza = (\<lambda>t. 0), local_tza_wall = (\<lambda>t. 0),
                        other_formats = (\<lambda>s. None)\<rparr>,
          delay_urlScheme = 2000, delay_todoSearch = 500, open_fault = (\<lambda>url. None)\<rparr>
        \<lparr>u_title = Some ''Buy milk'', u_notes = None, u_whenDate = Null, u_deadline = Absent,
          u_tags = None, u_completed = None, u_canceled = None, u_listId = Null\<rparr>
       = [(''title'', JStr ''Buy milk''), (''when'', JStr []), (''list-id'', JStr [])]
   \<and> ''notes'' \<notin> fst ` set [(''title'', JStr ''Buy milk''), (''when'', JStr []), (''list-id'', JStr [])]
   \<and> map_of [(''title'', JStr ''Buy milk''), (''when'', JStr []), (''list-id'', JStr [])] ''when''
       = Some (JStr [])"
proof -
  let ?e = "\<lparr>auth_token = None,
          env_clock = \<lparr>now = 0, local_tza = (\<lambda>t. 0), local_tza_wall = (\<lambda>t. 0),
                        other_formats = (\<lambda>s. None)\<rparr>,
          delay_urlScheme = 2000, delay_todoSearch = 500, open_fault = (\<lambda>url. None)\<rparr>"
  let ?p = "\<lparr>u_title = Some ''Buy milk'', u_notes = None, u_whenDate = Null, u_deadline = Absent,
          u_tags = None, u_completed = None, u_canceled = None, u_listId = Null\<rparr>"
  have doc: "updateTodo_attributes ?e ?p
       = [(''title'', JStr ''Buy milk''), (''when'', JStr []), (''list-id'', JStr [])]"
    by code_simp
  have url: "updateTodo_url ?e ''ABC'' ?p
       = ''things:///json?data=%5B%7B%22type%22%3A%22to-do%22%2C%22id%22%3A%22ABC%22%2C%22operation%22%3A%22update%22%2C%22attributes%22%3A%7B%22title%22%3A%22Buy%20milk%22%2C%22when%22%3A%22%22%2C%22list-id%22%3A%22%22%7D%7D%5D''"
    by code_simp
  have h: "u_notes ?p = None" "u_whenDate ?p = Null" by simp_all
  note t = updateTodo_three_states [where e = ?e and ident = "''ABC''" and p = ?p and tr = "[]"]
  have sent: "snd (url_updateTodo ?e ''ABC'' ?p [])
       = [OpenUrl ''things:///json?data=%5B%7B%22type%22%3A%22to-do%22%2C%22id%22%3A%22ABC%22%2C%22operation%22%3A%22update%22%2C%22attributes%22%3A%7B%22title%22%3A%22Buy%20milk%22%2C%22when%22%3A%22%22%2C%22list-id%22%3A%22%22%7D%7D%5D'',
          Sleep 2000]"
    using t [THEN conjunct1] unfolding url by simp
  note r = t [THEN conjunct2, THEN conjunct2, THEN conjunct2, THEN conjunct2]
  have "u_notes ?p = None \<longrightarrow> ''notes'' \<notin> fst ` set (updateTodo_attributes ?e ?p)"
    by (rule r [THEN conjunct2, THEN conjunct1])
  then have a: "''notes'' \<notin> fst ` set (updateTodo_attributes ?e ?p)"
    using h(1) by (rule mp)
  have "u_whenDate ?p = Null \<longrightarrow> map_of (updateTodo_attributes ?e ?p) ''when'' = Some (JStr [])"
    by (rule r [THEN conjunct2, THEN conjunct2, THEN conjunct2, THEN conjunct2, THEN conjunct2,
                THEN conjunct2, THEN conjunct2, THEN conjunct2, THEN conjunct1])
  then have b: "map_of (updateTodo_attributes ?e ?p) ''when'' = Some (JStr [])"
    using h(2) by (rule mp)
  show ?thesis using h sent a b unfolding doc by simp
qed

section \<open>The authorization token on create and update payloads\<close>

lemma truthy_Some: "t \<noteq> [] \<Longrightarrow> truthy (Some t) = Some t"
  by (simp add: truthy_def)

lemma truthy_None: "v = None \<or> v = Some [] \<Longrightarrow> truthy v = None"
  by (auto simp: truthy_def)

lemma join_not_Nil: "x \<noteq> [] \<Longrightarrow> join sep (x # xs) \<noteq> []"
  by (simp add: join_Cons)

lemma query_string_not_Nil: "url_params e params \<noteq> [] \<Longrightarrow> query_string e params \<noteq> []"
proof -
  assume "url_params e params \<noteq> []"
  then obtain kv es where "url_params e params = kv # es" by (cases "url_params e params") auto
  then show ?thesis
    using join_not_Nil [OF field_not_Nil, of "''&''" kv "map field_of es"]
    by (simp add: query_string_def query_fields)
qed

lemma buildUrl_with_query:
  "url_params e params \<noteq> [] \<Longrightarrow>
   buildUrl e operation params = ''things:///'' @ operation_name operation @ ''?'' @ query_string e params"
  using query_string_not_Nil [of e params] by (simp add: buildUrl_def Let_def)

lemma createTodo_entries:
  "concat (map param_entry (createTodo_urlParams e p))
     = (''title'', c_title p) # concat (map param_entry (tl (createTodo_urlParams e p)))"
  by (simp add: createTodo_urlParams_def param_entry_def)


text \<open>
  C9.  When the environment holds a (non-empty) token.  Create: the one URL
  \<open>createTodo\<close> hands to the activation channel is \<open>things:///add?\<close> and a query
  string that reads back with \<open>auth-token\<close> and the token as its first pair; so does
  the query string of every URL of \<open>buildUrl\<close>.  Update: the one URL \<open>updateTodo\<close>
  hands over is the URL of \<open>buildJsonUrl\<close> for the update document; the attributes of
  the document are those of the same update without a token, followed by the member
  \<open>auth-token\<close> with the token as a JSON string; every URL of \<open>buildJsonUrl\<close> ends in
  \<open>&auth-token=\<close> and the token as it is, which reads back as the token when the
  token has none of the characters \<open>&\<close>, \<open>%\<close> and \<open>+\<close>; and every item of a
  status change, handed over in the same way, carries the token among its attributes.  When there is no token: the
  create URL is \<open>things:///add?\<close> followed by a query string that reads back as the
  title pair and the pairs of the other parameters, with no \<open>auth-token\<close> among them,
  and it is handed over all the same.  With or without the token, the create activation
  succeeds exactly when the system's \<open>open\<close> accepts the URL.
\<close>

theorem auth_token_attached:
  "(\<forall>t. auth_token e = Some t \<and> t \<noteq> [] \<longrightarrow>
      snd (url_createTodo e p tr)
          = tr @ OpenUrl (createTodo_url e p)
               # (case open_fault e (createTodo_url e p) of
                    None \<Rightarrow> [Sleep (delay_urlScheme e)] | Some m \<Rightarrow> [])
      \<and> createTodo_url e p = ''things:///add?'' @ query_string e (createTodo_urlParams e p)
      \<and> parse_query (query_string e (createTodo_urlParams e p))
          = (''auth-token'', t) # (''title'', c_title p)
              # concat (map param_entry (tl (createTodo_urlParams e p)))
      \<and> parse_query (query_string e params) = (''auth-token'', t) # concat (map param_entry params)
      \<and> buildUrl e operation params
          = ''things:///'' @ operation_name operation @ ''?'' @ query_string e params
      \<and> buildJsonUrl e items
          = ''things:///json?data='' @ encodeURIComponent (the (json_stringify (JArr items)))
            @ ''&auth-token='' @ t
      \<and> (CHR ''&'' \<notin> set t \<and> CHR ''%'' \<notin> set t \<and> CHR ''+'' \<notin> set t \<longrightarrow>
           parse_query (''data='' @ encodeURIComponent (the (json_stringify (JArr items)))
                        @ ''&auth-token='' @ t)
             = [(''data'', the (json_stringify (JArr items))), (''auth-token'', t)])
      \<and> snd (url_updateTodo e ident q tr)
          = tr @ OpenUrl (updateTodo_url e ident q)
               # (case open_fault e (updateTodo_url e ident q) of
                    None \<Rightarrow> [Sleep (delay_urlScheme e)] | Some m \<Rightarrow> [])
      \<and> updateTodo_url e ident q
          = buildJsonUrl e [update_item ident (updateTodo_attributes e q)]
      \<and> map_of (updateTodo_attributes e q) ''auth-token'' = Some (JStr t)
      \<and> json_stringify (JArr [update_item ident (updateTodo_attributes e q)])
          = Some (''[{'' @ json_quote ''type'' @ '':'' @ json_quote ''to-do''
              @ '','' @ json_quote ''id'' @ '':'' @ json_quote ident
              @ '','' @ json_quote ''operation'' @ '':'' @ json_quote ''update''
              @ '','' @ json_quote ''attributes'' @ '':{''
              @ join '',''
                  (concat (map (\<lambda>kv. case json_stringify (snd kv) of None \<Rightarrow> []
                                   | Some t \<Rightarrow> [json_quote (fst kv) @ '':'' @ t])
                       (updateTodo_attributes (e\<lparr>auth_token := None\<rparr>) q))
                   @ [json_quote ''auth-token'' @ '':'' @ json_quote t])
              @ ''}}]'')
      \<and> snd (url_completeTodos e ids tr)
          = tr @ OpenUrl (buildJsonUrl e (status_items e True ids))
               # (case open_fault e (buildJsonUrl e (status_items e True ids)) of
                    None \<Rightarrow> [Sleep (delay_urlScheme e)] | Some m \<Rightarrow> [])
      \<and> status_items e b ids
          = map (\<lambda>ident. update_item ident [(''completed'', JBool b), (''auth-token'', JStr t)]) ids
      \<and> snd (url_uncompleteTodos e ids tr)
          = tr @ OpenUrl (buildJsonUrl e (status_items e False ids))
               # (case open_fault e (buildJsonUrl e (status_items e False ids)) of
                    None \<Rightarrow> [Sleep (delay_urlScheme e)] | Some m \<Rightarrow> []))
   \<and> (auth_token e = None \<or> auth_token e = Some [] \<longrightarrow>
      createTodo_url e p = ''things:///add?'' @ query_string e (createTodo_urlParams e p)
      \<and> parse_query (query_string e (createTodo_urlParams e p))
          = (''title'', c_title p) # concat (map param_entry (tl (createTodo_urlParams e p)))
      \<and> ''auth-token'' \<notin> fst ` set (parse_query (query_string e (createTodo_urlParams e p)))
      \<and> snd (url_createTodo e p tr)
          = tr @ OpenUrl (createTodo_url e p)
               # (case open_fault e (createTodo_url e p) of
                    None \<Rightarrow> [Sleep (delay_urlScheme e)] | Some m \<Rightarrow> []))
   \<and> ((fst (url_createTodo e p tr) = Inr ()) = (open_fault e (createTodo_url e p) = None))"
proof -
  have sent: "snd (url_createTodo e p tr)
          = tr @ OpenUrl (createTodo_url e p)
               # (case open_fault e (createTodo_url e p) of
                    None \<Rightarrow> [Sleep (delay_urlScheme e)] | Some m \<Rightarrow> [])"
    by (simp add: url_createTodo_def execute_trace)
  have A: "snd (url_createTodo e p tr)
          = tr @ OpenUrl (createTodo_url e p)
               # (case open_fault e (createTodo_url e p) of
                    None \<Rightarrow> [Sleep (delay_urlScheme e)] | Some m \<Rightarrow> [])
      \<and> createTodo_url e p = ''things:///add?'' @ query_string e (createTodo_urlParams e p)
      \<and> parse_query (query_string e (createTodo_urlParams e p))
          = (''auth-token'', t) # (''title'', c_title p)
              # concat (map param_entry (tl (createTodo_urlParams e p)))
      \<and> parse_query (query_string e params) = (''auth-token'', t) # concat (map param_entry params)
      \<and> buildUrl e operation params
          = ''things:///'' @ operation_name operation @ ''?'' @ query_string e params
      \<and> buildJsonUrl e items
          = ''things:///json?data='' @ encodeURIComponent (the (json_stringify (JArr items)))
            @ ''&auth-token='' @ t
      \<and> (CHR ''&'' \<notin> set t \<and> CHR ''%'' \<notin> set t \<and> CHR ''+'' \<notin> set t \<longrightarrow>
           parse_query (''data='' @ encodeURIComponent (the (json_stringify (JArr items)))
                        @ ''&auth-token='' @ t)
             = [(''data'', the (json_stringify (JArr items))), (''auth-token'', t)])
      \<and> snd (url_updateTodo e ident q tr)
          = tr @ OpenUrl (updateTodo_url e ident q)
               # (case open_fault e (updateTodo_url e ident q) of
                    None \<Rightarrow> [Sleep (delay_urlScheme e)] | Some m \<Rightarrow> [])
      \<and> updateTodo_url e ident q
          = buildJsonUrl e [update_item ident (updateTodo_attributes e q)]
      \<and> map_of (updateTodo_attributes e q) ''auth-token'' = Some (JStr t)
      \<and> json_stringify (JArr [update_item ident (updateTodo_attributes e q)])
          = Some (''[{'' @ json_quote ''type'' @ '':'' @ json_quote ''to-do''
              @ '','' @ json_quote ''id'' @ '':'' @ json_quote ident
              @ '','' @ json_quote ''operation'' @ '':'' @ json_quote ''update''
              @ '','' @ json_quote ''attributes'' @ '':{''
              @ join '',''
                  (concat (map (\<lambda>kv. case json_stringify (snd kv) of None \<Rightarrow> []
                                   | Some t \<Rightarrow> [json_quote (fst kv) @ '':'' @ t])
                       (updateTodo_attributes (e\<lparr>auth_token := None\<rparr>) q))
                   @ [json_quote ''auth-token'' @ '':'' @ json_quote t])
              @ ''}}]'')
      \<and> snd (url_completeTodos e ids tr)
          = tr @ OpenUrl (buildJsonUrl e (status_items e True ids))
               # (case open_fault e (buildJsonUrl e (status_items e True ids)) of
                    None \<Rightarrow> [Sleep (delay_urlScheme e)] | Some m \<Rightarrow> [])
      \<and> status_items e b ids
          = map (\<lambda>ident. update_item ident [(''completed'', JBool b), (''auth-token'', JStr t)]) ids
      \<and> snd (url_uncompleteTodos e ids tr)
          = tr @ OpenUrl (buildJsonUrl e (status_items e False ids))
               # (case open_fault e (buildJsonUrl e (status_items e False ids)) of
                    None \<Rightarrow> [Sleep (delay_urlScheme e)] | Some m \<Rightarrow> [])"
    if tok: "auth_token e = Some t" "t \<noteq> []" for t
  proof -
    have tr: "truthy (getAuthToken e) = Some t"
      using tok by (simp add: getAuthToken_def truthy_Some)
    have tr': "truthy (auth_token e) = Some t"
      using tr by (simp add: getAuthToken_def)
    have up: "url_params e params = (''auth-token'', t) # concat (map param_entry params)" for params
      by (simp add: url_params_def tr)
    have a2: "createTodo_url e p = ''things:///add?'' @ query_string e (createTodo_urlParams e p)"
      using buildUrl_with_query [of e "createTodo_urlParams e p" ADD]
      by (simp add: up createTodo_url_def)
    have a3: "parse_query (query_string e (createTodo_urlParams e p))
          = (''auth-token'', t) # (''title'', c_title p)
              # concat (map param_entry (tl (createTodo_urlParams e p)))"
      using createTodo_entries [of e p] by (simp add: parse_query_string up)
    have a4: "parse_query (query_string e params) = (''auth-token'', t) # concat (map param_entry params)"
      by (simp add: parse_query_string up)
    have a5: "buildUrl e operation params
          = ''things:///'' @ operation_name operation @ ''?'' @ query_string e params"
      using buildUrl_with_query [of e params operation] by (simp add: up)
    have a6: "buildJsonUrl e items
          = ''things:///json?data='' @ encodeURIComponent (the (json_stringify (JArr items)))
            @ ''&auth-token='' @ t" for items
      by (simp add: buildJsonUrl_def Let_def tr)
    have a7: "CHR ''&'' \<notin> set t \<and> CHR ''%'' \<notin> set t \<and> CHR ''+'' \<notin> set t \<longrightarrow>
           parse_query (''data='' @ encodeURIComponent (the (json_stringify (JArr items)))
                        @ ''&auth-token='' @ t)
             = [(''data'', the (json_stringify (JArr items))), (''auth-token'', t)]"
      using json_url_reads_back [OF tok(2), of "the (json_stringify (JArr items))"] by simp
    have a8: "snd (url_updateTodo e ident q tr)
          = tr @ OpenUrl (updateTodo_url e ident q)
               # (case open_fault e (updateTodo_url e ident q) of
                    None \<Rightarrow> [Sleep (delay_urlScheme e)] | Some m \<Rightarrow> [])"
      by (simp add: url_updateTodo_def execute_trace)
    have a9: "updateTodo_url e ident q
          = buildJsonUrl e [update_item ident (updateTodo_attributes e q)]"
      by (simp add: updateTodo_url_def)
    have lit: "map_of (updateTodo_literal e q) ''auth-token'' = Some (JStr t)"
      by (simp add: updateTodo_literal_def auth_attribute_def tr)
    have a10: "map_of (updateTodo_attributes e q) ''auth-token'' = Some (JStr t)"
      by (simp add: updateTodo_attribute lit)
    have none: "truthy (auth_token (e\<lparr>auth_token := None\<rparr>)) = None"
      by (simp add: truthy_def)
    have same_clock: "env_clock (e\<lparr>auth_token := None\<rparr>) = env_clock e"
      by simp
    have "concat (map (\<lambda>kv. case json_stringify (snd kv) of None \<Rightarrow> []
                                   | Some t \<Rightarrow> [json_quote (fst kv) @ '':'' @ t]) (updateTodo_attributes e q))
        = concat (map (\<lambda>kv. case json_stringify (snd kv) of None \<Rightarrow> []
                                   | Some t \<Rightarrow> [json_quote (fst kv) @ '':'' @ t])
                       (updateTodo_attributes (e\<lparr>auth_token := None\<rparr>) q))
          @ [json_quote ''auth-token'' @ '':'' @ json_quote t]"
      unfolding updateTodo_members none tr' same_clock by simp
    then have a11: "json_stringify (JArr [update_item ident (updateTodo_attributes e q)])
          = Some (''[{'' @ json_quote ''type'' @ '':'' @ json_quote ''to-do''
              @ '','' @ json_quote ''id'' @ '':'' @ json_quote ident
              @ '','' @ json_quote ''operation'' @ '':'' @ json_quote ''update''
              @ '','' @ json_quote ''attributes'' @ '':{''
              @ join '',''
                  (concat (map (\<lambda>kv. case json_stringify (snd kv) of None \<Rightarrow> []
                                   | Some t \<Rightarrow> [json_quote (fst kv) @ '':'' @ t])
                       (updateTodo_attributes (e\<lparr>auth_token := None\<rparr>) q))
                   @ [json_quote ''auth-token'' @ '':'' @ json_quote t])
              @ ''}}]'')"
      using update_item_text [of ident "updateTodo_attributes e q"] by simp
    have a12: "snd (url_completeTodos e ids tr)
          = tr @ OpenUrl (buildJsonUrl e (status_items e True ids))
               # (case open_fault e (buildJsonUrl e (status_items e True ids)) of
                    None \<Rightarrow> [Sleep (delay_urlScheme e)] | Some m \<Rightarrow> [])"
      by (simp add: url_completeTodos_def execute_trace)
    have a13: "status_items e b ids
          = map (\<lambda>ident. update_item ident [(''completed'', JBool b), (''auth-token'', JStr t)]) ids"
      by (simp add: status_items_def auth_attribute_def tr)
    have a14: "snd (url_uncompleteTodos e ids tr)
          = tr @ OpenUrl (buildJsonUrl e (status_items e False ids))
               # (case open_fault e (buildJsonUrl e (status_items e False ids)) of
                    None \<Rightarrow> [Sleep (delay_urlScheme e)] | Some m \<Rightarrow> [])"
      by (simp add: url_uncompleteTodos_def execute_trace)
    from sent a2 a3 a4 a5 a6 [of items] a7 a8 a9 a10 a11 a12 a13 a14 show ?thesis
      by (intro conjI) assumption+
  qed
  have B: "createTodo_url e p = ''things:///add?'' @ query_string e (createTodo_urlParams e p)
      \<and> parse_query (query_string e (createTodo_urlParams e p))
          = (''title'', c_title p) # concat (map param_entry (tl (createTodo_urlParams e p)))
      \<and> ''auth-token'' \<notin> fst ` set (parse_query (query_string e (createTodo_urlParams e p)))
      \<and> snd (url_createTodo e p tr)
          = tr @ OpenUrl (createTodo_url e p)
               # (case open_fault e (createTodo_url e p) of
                    None \<Rightarrow> [Sleep (delay_urlScheme e)] | Some m \<Rightarrow> [])"
    if no: "auth_token e = None \<or> auth_token e = Some []"
  proof -
    have tr: "truthy (getAuthToken e) = None"
      using no by (simp add: getAuthToken_def truthy_None)
    have up: "url_params e (createTodo_urlParams e p)
                = (''title'', c_title p) # concat (map param_entry (tl (createTodo_urlParams e p)))"
      using createTodo_entries [of e p] by (simp add: url_params_def tr)
    have keys: "fst ` set (url_params e (createTodo_urlParams e p))
                  \<subseteq> fst ` set (createTodo_urlParams e p)"
      using param_entries_keys [of "createTodo_urlParams e p"] by (simp add: url_params_def tr)
    have "''auth-token'' \<notin> fst ` set (url_params e (createTodo_urlParams e p))"
      using keys createTodo_urlParams_keys [of e p] by blast
    then show ?thesis
      using buildUrl_with_query [of e "createTodo_urlParams e p" ADD] up sent
      by (simp add: parse_query_string createTodo_url_def)
  qed
  have C: "(fst (url_createTodo e p tr) = Inr ()) = (open_fault e (createTodo_url e p) = None)"
    by (simp add: url_createTodo_def execute_def split: option.splits)
  show ?thesis using A B C by blast
qed


text \<open>
  The same create with the token \<open>tok\<close> and without a token, and an update with the
  token: the URLs handed over, and the token read back from the update URL.
\<close>

theorem auth_token_attached_witness:
  "auth_token \<lparr>auth_token = Some ''tok'',
          env_clock = \<lparr>now = 0, local_tza = (\<lambda>t. 0), local_tza_wall = (\<lambda>t. 0),
                        other_formats = (\<lambda>s. None)\<rparr>,
          delay_urlScheme = 2000, delay_todoSearch = 500, open_fault = (\<lambda>url. None)\<rparr> = Some ''tok''
   \<and> ''tok'' \<noteq> []
   \<and> snd (url_createTodo
        \<lparr>auth_token = Some ''tok'',
          env_clock = \<lparr>now = 0, local_tza = (\<lambda>t. 0), local_tza_wall = (\<lambda>t. 0),
                        other_formats = (\<lambda>s. None)\<rparr>,
          delay_urlScheme = 2000, delay_todoSearch = 500, open_fault = (\<lambda>url. None)\<rparr>
        \<lparr>c_title = ''Buy milk'', c_notes = None, c_whenDate = None, c_deadline = None,
          c_tags = None, c_checklistItems = None, c_projectId = None, c_areaId = None,
          c_heading = None\<rparr> [])
       = [OpenUrl ''things:///add?auth-token=tok&title=Buy%20milk'', Sleep 2000]
   \<and> snd (url_updateTodo
        \<lparr>auth_token = Some ''tok'',
          env_clock = \<lparr>now = 0, local_tza = (\<lambda>t. 0), local_tza_wall = (\<lambda>t. 0),
                        other_formats = (\<lambda>s. None)\<rparr>,
          delay_urlScheme = 2000, delay_todoSearch = 500, open_fault = (\<lambda>url. None)\<rparr>
        ''ABC''
        \<lparr>u_title = Some ''Buy milk'', u_notes = None, u_whenDate = Absent, u_deadline = Absent,
          u_tags = None, u_completed = None, u_canceled = None, u_listId = Absent\<rparr> [])
       = [OpenUrl ''things:///json?data=%5B%7B%22type%22%3A%22to-do%22%2C%22id%22%3A%22ABC%22%2C%22operation%22%3A%22update%22%2C%22attributes%22%3A%7B%22title%22%3A%22Buy%20milk%22%2C%22auth-token%22%3A%22tok%22%7D%7D%5D&auth-token=tok'',
          Sleep 2000]
   \<and> map_of (updateTodo_attributes
        \<lparr>auth_token = Some ''tok'',
          env_clock = \<lparr>now = 0, local_tza = (\<lambda>t. 0), local_tza_wall = (\<lambda>t. 0),
                        other_formats = (\<lambda>s. None)\<rparr>,
          delay_urlScheme = 2000, delay_todoSearch = 500, open_fault = (\<lambda>url. None)\<rparr>
        \<lparr>u_title = Some ''Buy milk'', u_notes = None, u_whenDate = Absent, u_deadline = Absent,
          u_tags = None, u_completed = None, u_canceled = None, u_listId = Absent\<rparr>) ''auth-token''
       = Some (JStr ''tok'')
   \<and> CHR ''&'' \<notin> set ''tok'' \<and> CHR ''%'' \<notin> set ''tok'' \<and> CHR ''+'' \<notin> set ''tok''
   \<and> map_of (parse_query ''data=%5B%7B%22type%22%3A%22to-do%22%2C%22id%22%3A%22ABC%22%2C%22operation%22%3A%22update%22%2C%22attributes%22%3A%7B%22title%22%3A%22Buy%20milk%22%2C%22auth-token%22%3A%22tok%22%7D%7D%5D&auth-token=tok'') ''auth-token''
       = Some ''tok''
   \<and> auth_token \<lparr>auth_token = None,
          env_clock = \<lparr>now = 0, local_tza = (\<lambda>t. 0), local_tza_wall = (\<lambda>t. 0),
                        other_formats = (\<lambda>s. None)\<rparr>,
          delay_urlScheme = 2000, delay_todoSearch = 500, open_fault = (\<lambda>url. None)\<rparr> = None
   \<and> snd (url_createTodo
        \<lparr>auth_token = None,
          env_clock = \<lparr>now = 0, local_tza = (\<lambda>t. 0), local_tza_wall = (\<lambda>t. 0),
                        other_formats = (\<lambda>s. None)\<rparr>,
          delay_urlScheme = 2000, delay_todoSearch = 500, open_fault = (\<lambda>url. None)\<rparr>
        \<lparr>c_title = ''Buy milk'', c_notes = None, c_whenDate = None, c_deadline = None,
          c_tags = None, c_checklistItems = None, c_projectId = None, c_areaId = None,
          c_heading = None\<rparr> [])
       = [OpenUrl ''things:///add?title=Buy%20milk'', Sleep 2000]
   \<and> fst (url_createTodo
        \<lparr>auth_token = None,
          env_clock = \<lparr>now = 0, local_tza = (\<lambda>t. 0), local_tza_wall = (\<lambda>t. 0),
                        other_formats = (\<lambda>s. None)\<rparr>,
          delay_urlScheme = 2000, delay_todoSearch = 500, open_fault = (\<lambda>url. None)\<rparr>
        \<lparr>c_title = ''Buy milk'', c_notes = None, c_whenDate = None, c_deadline = None,
          c_tags = None, c_checklistItems = None, c_projectId = None, c_areaId = None,
          c_heading = None\<rparr> []) = Inr ()"
proof -
  let ?e1 = "\<lparr>auth_token = Some ''tok'',
          env_clock = \<lparr>now = 0, local_tza = (\<lambda>t. 0), local_tza_wall = (\<lambda>t. 0),
                        other_formats = (\<lambda>s. None)\<rparr>,
          delay_urlScheme = 2000, delay_todoSearch = 500, open_fault = (\<lambda>url. None)\<rparr>"
  let ?e0 = "\<lparr>auth_token = None,
          env_clock = \<lparr>now = 0, local_tza = (\<lambda>t. 0), local_tza_wall = (\<lambda>t. 0),
                        other_formats = (\<lambda>s. None)\<rparr>,
          delay_urlScheme = 2000, delay_todoSearch = 500, open_fault = (\<lambda>url. None)\<rparr>"
  let ?p = "\<lparr>c_title = ''Buy milk'', c_notes = None, c_whenDate = None, c_deadline = None,
          c_tags = None, c_checklistItems = None, c_projectId = None, c_areaId = None,
          c_heading = None\<rparr>"
  let ?q = "\<lparr>u_title = Some ''Buy milk'', u_notes = None, u_whenDate = Absent, u_deadline = Absent,
          u_tags = None, u_completed = None, u_canceled = None, u_listId = Absent\<rparr>"
  let ?items = "[update_item ''ABC'' (updateTodo_attributes ?e1 ?q)]"
  have h1: "auth_token ?e1 = Some ''tok'' \<and> ''tok'' \<noteq> []" by simp
  have h0: "auth_token ?e0 = None \<or> auth_token ?e0 = Some []" by simp
  have plain: "CHR ''&'' \<notin> set ''tok'' \<and> CHR ''%'' \<notin> set ''tok'' \<and> CHR ''+'' \<notin> set ''tok''"
    by simp
  note t1 = auth_token_attached
      [where e = ?e1 and q = ?q and p = ?p and params = "[]" and operation = ADD
         and items = ?items and ident = "''ABC''" and tr = "[]" and ids = "[]" and b = True,
       THEN conjunct1, rule_format, OF h1]
  note t0 = auth_token_attached
      [where e = ?e0 and q = ?q and p = ?p and params = "[]" and operation = ADD
         and items = "[]" and ident = "''ABC''" and tr = "[]" and ids = "[]" and b = True]
  have u1: "createTodo_url ?e1 ?p = ''things:///add?auth-token=tok&title=Buy%20milk''"
    by code_simp
  have u0: "createTodo_url ?e0 ?p = ''things:///add?title=Buy%20milk''"
    by code_simp
  have uu: "updateTodo_url ?e1 ''ABC'' ?q
       = ''things:///json?data=%5B%7B%22type%22%3A%22to-do%22%2C%22id%22%3A%22ABC%22%2C%22operation%22%3A%22update%22%2C%22attributes%22%3A%7B%22title%22%3A%22Buy%20milk%22%2C%22auth-token%22%3A%22tok%22%7D%7D%5D&auth-token=tok''"
    by code_simp
  have enc: "''data='' @ encodeURIComponent (the (json_stringify (JArr ?items))) @ ''&auth-token='' @ ''tok''
       = ''data=%5B%7B%22type%22%3A%22to-do%22%2C%22id%22%3A%22ABC%22%2C%22operation%22%3A%22update%22%2C%22attributes%22%3A%7B%22title%22%3A%22Buy%20milk%22%2C%22auth-token%22%3A%22tok%22%7D%7D%5D&auth-token=tok''"
    by code_simp
  have c1: "snd (url_createTodo ?e1 ?p [])
       = [OpenUrl ''things:///add?auth-token=tok&title=Buy%20milk'', Sleep 2000]"
    using t1 [THEN conjunct1] unfolding u1 by simp
  have c2: "snd (url_updateTodo ?e1 ''ABC'' ?q [])
       = [OpenUrl ''things:///json?data=%5B%7B%22type%22%3A%22to-do%22%2C%22id%22%3A%22ABC%22%2C%22operation%22%3A%22update%22%2C%22attributes%22%3A%7B%22title%22%3A%22Buy%20milk%22%2C%22auth-token%22%3A%22tok%22%7D%7D%5D&auth-token=tok'',
          Sleep 2000]"
    using t1 [THEN conjunct2, THEN conjunct2, THEN conjunct2, THEN conjunct2, THEN conjunct2,
              THEN conjunct2, THEN conjunct2, THEN conjunct1]
    unfolding uu by simp
  have a: "map_of (updateTodo_attributes ?e1 ?q) ''auth-token'' = Some (JStr ''tok'')"
    by (rule t1 [THEN conjunct2, THEN conjunct2, THEN conjunct2, THEN conjunct2, THEN conjunct2,
              THEN conjunct2, THEN conjunct2, THEN conjunct2, THEN conjunct2, THEN conjunct1])
  have "parse_query (''data='' @ encodeURIComponent (the (json_stringify (JArr ?items)))
                        @ ''&auth-token='' @ ''tok'')
             = [(''data'', the (json_stringify (JArr ?items))), (''auth-token'', ''tok'')]"
    using t1 [THEN conjunct2, THEN conjunct2, THEN conjunct2, THEN conjunct2, THEN conjunct2,
              THEN conjunct2, THEN conjunct1, THEN mp, OF plain] .
  then have rb: "map_of (parse_query ''data=%5B%7B%22type%22%3A%22to-do%22%2C%22id%22%3A%22ABC%22%2C%22operation%22%3A%22update%22%2C%22attributes%22%3A%7B%22title%22%3A%22Buy%20milk%22%2C%22auth-token%22%3A%22tok%22%7D%7D%5D&auth-token=tok'') ''auth-token''
       = Some ''tok''"
    unfolding enc by simp
  have c0: "snd (url_createTodo ?e0 ?p []) = [OpenUrl ''things:///add?title=Buy%20milk'', Sleep 2000]"
    using t0 [THEN conjunct2, THEN conjunct1, THEN mp, OF h0,
              THEN conjunct2, THEN conjunct2, THEN conjunct2]
    unfolding u0 by simp
  have ok: "fst (url_createTodo ?e0 ?p []) = Inr ()"
    using t0 [THEN conjunct2, THEN conjunct2] by simp
  show ?thesis using h1 c1 c2 a plain rb c0 ok by simp
qed

section \<open>Recovering the identifier of a created to-do\<close>

lemma paginate_narrow: "paginate (narrow_search title) xs = take 10 xs"
  by (simp add: paginate_def narrow_search_def)

lemma paginate_broad: "paginate broad_search xs = take 50 xs"
  by (simp add: paginate_def broad_search_def)

lemma listTodos_replied:
  assumes "running_fault ch tr = None"
    and "list_reply ch (l_filter p) (l_status p) (l_searchText p) (tr @ [EnsureRunning]) = Inr found"
  shows "listTodos ch p tr =
           (Inr (paginate p found),
            tr @ [EnsureRunning, ListScript (l_filter p) (l_status p) (l_searchText p)])"
  using assms by (simp add: listTodos_def Let_def)

text \<open>
  C1.  When the bridge is running, the tags are ensured and the activation is accepted,
  \<open>createTodo\<close> issues the activation and waits the two configured delays, then lists
  the open to-dos that contain the title, keeps the first 10 and of these the ones whose
  title equals it: the first such match is returned as a success.  With no match it
  waits one second, lists the open to-dos of the inbox, keeps the first 50 and looks for
  an equal title there; with no match again the outcome is a success with the
  identifier \<open>unknown\<close>.  The second component is everything the call did, in order.
\<close>

theorem createTodo_recovery:
  assumes running: "\<forall>tr'. running_fault ch tr' = None"
    and tagged: "\<forall>tr'. tags_fault ch tr' = None"
    and opened: "\<forall>url. open_fault e url = None"
    and narrow: "\<forall>tr'. list_reply ch None (Some StatusOpen) (Some (c_title (correctedData report))) tr'
                   = Inr listed1"
    and broad: "\<forall>tr'. list_reply ch (Some Inbox) (Some StatusOpen) None tr' = Inr listed2"
  shows "createTodo ch e report tr =
           ((let title = c_title (correctedData report);
                 matches = filter (\<lambda>todo. r_title todo = title) (take 10 listed1)
             in if matches \<noteq> [] then Inr (found_result report (r_id (hd matches)))
                else (case find (\<lambda>todo. r_title todo = title) (take 50 listed2) of
                        Some m \<Rightarrow> Inr (found_result report (r_id m))
                      | None \<Rightarrow> Inr (unknown_result report))),
            tr @ [EnsureRunning]
            @ (case c_tags (correctedData report) of
                 Some ts \<Rightarrow> if ts \<noteq> [] then [EnsureTags ts] else []
               | None \<Rightarrow> [])
            @ [OpenUrl (createTodo_url e (createParams_of (correctedData report))),
               Sleep (delay_urlScheme e),
               Sleep (delay_todoSearch e),
               EnsureRunning,
               ListScript None (Some StatusOpen) (Some (c_title (correctedData report)))]
            @ (if filter (\<lambda>todo. r_title todo = c_title (correctedData report)) (take 10 listed1) \<noteq> []
               then []
               else [Sleep 1000, EnsureRunning, ListScript (Some Inbox) (Some StatusOpen) None]))
         \<and> cr_success (found_result report ident) \<and> cr_id (found_result report ident) = ident
         \<and> cr_success (unknown_result report) \<and> cr_id (unknown_result report) = ''unknown''"
proof -
  let ?title = "c_title (correctedData report)"
  have l1: "listTodos ch (narrow_search ?title) tr' =
              (Inr (take 10 listed1),
               tr' @ [EnsureRunning, ListScript None (Some StatusOpen) (Some ?title)])" for tr'
    using listTodos_replied [of ch tr' "narrow_search ?title" listed1] running narrow
    by (simp add: paginate_narrow) (simp add: narrow_search_def)
  have l2: "listTodos ch broad_search tr' =
              (Inr (take 50 listed2),
               tr' @ [EnsureRunning, ListScript (Some Inbox) (Some StatusOpen) None])" for tr'
    using listTodos_replied [of ch tr' broad_search listed2] running broad
    by (simp add: paginate_broad) (simp add: broad_search_def)
  have rec: "recover_id ch e report tr' =
     ((let matches = filter (\<lambda>todo. r_title todo = ?title) (take 10 listed1)
       in if matches \<noteq> [] then Inr (found_result report (r_id (hd matches)))
          else (case find (\<lambda>todo. r_title todo = ?title) (take 50 listed2) of
                  Some m \<Rightarrow> Inr (found_result report (r_id m))
                | None \<Rightarrow> Inr (unknown_result report))),
      tr' @ [Sleep (delay_todoSearch e), EnsureRunning,
             ListScript None (Some StatusOpen) (Some ?title)]
          @ (if filter (\<lambda>todo. r_title todo = ?title) (take 10 listed1) \<noteq> [] then []
             else [Sleep 1000, EnsureRunning, ListScript (Some Inbox) (Some StatusOpen) None]))" for tr'
    by (simp add: recover_id_def Let_def l1 l2 split: option.splits)
  have ex: "execute e url tr' = (Inr (), tr' @ [OpenUrl url, Sleep (delay_urlScheme e)])" for url tr'
    using opened by (simp add: execute_def)
  have main: "createTodo ch e report tr =
      recover_id ch e report
        (tr @ [EnsureRunning]
         @ (case c_tags (correctedData report) of
              Some ts \<Rightarrow> if ts \<noteq> [] then [EnsureTags ts] else []
            | None \<Rightarrow> [])
         @ [OpenUrl (createTodo_url e (createParams_of (correctedData report))),
            Sleep (delay_urlScheme e)])"
    using running tagged
    by (simp add: createTodo_def Let_def url_createTodo_def ex split: option.splits)
  show ?thesis
    unfolding main rec
    by (simp add: Let_def found_result_def unknown_result_def)
qed


text \<open>
  A host that lists two to-dos containing the title, the second with exactly that
  title; and a host that lists nothing.
\<close>

theorem createTodo_recovery_witness:
  "(\<forall>tr'. running_fault
        \<lparr>running_fault = (\<lambda>tr. None), tags_fault = (\<lambda>tr. None),
          list_reply = (\<lambda>f s t tr. Inr (if f = None
             then [\<lparr>r_id = ''X7'', r_title = ''Buy milk and eggs'', r_completed = False\<rparr>,
                   \<lparr>r_id = ''X9'', r_title = ''Buy milk'', r_completed = False\<rparr>]
             else []))\<rparr> tr' = None)
   \<and> fst (createTodo
        \<lparr>running_fault = (\<lambda>tr. None), tags_fault = (\<lambda>tr. None),
          list_reply = (\<lambda>f s t tr. Inr (if f = None
             then [\<lparr>r_id = ''X7'', r_title = ''Buy milk and eggs'', r_completed = False\<rparr>,
                   \<lparr>r_id = ''X9'', r_title = ''Buy milk'', r_completed = False\<rparr>]
             else []))\<rparr>
        \<lparr>auth_token = None,
          env_clock = \<lparr>now = 0, local_tza = (\<lambda>t. 0), local_tza_wall = (\<lambda>t. 0),
                        other_formats = (\<lambda>s. None)\<rparr>,
          delay_urlScheme = 2000, delay_todoSearch = 500, open_fault = (\<lambda>url. None)\<rparr>
        \<lparr>hasCorrections = False, corrections = [],
          correctedData = \<lparr>c_title = ''Buy milk'', c_notes = None, c_whenDate = None,
            c_deadline = None, c_tags = None, c_checklistItems = None, c_projectId = None,
            c_areaId = None, c_heading = None\<rparr>\<rparr> [])
       = Inr \<lparr>cr_success = True, cr_id = ''X9'', correctionsMade = None\<rparr>
   \<and> createTodo
        \<lparr>running_fault = (\<lambda>tr. None), tags_fault = (\<lambda>tr. None),
          list_reply = (\<lambda>f s t tr. Inr [])\<rparr>
        \<lparr>auth_token = None,
          env_clock = \<lparr>now = 0, local_tza = (\<lambda>t. 0), local_tza_wall = (\<lambda>t. 0),
                        other_formats = (\<lambda>s. None)\<rparr>,
          delay_urlScheme = 2000, delay_todoSearch = 500, open_fault = (\<lambda>url. None)\<rparr>
        \<lparr>hasCorrections = False, corrections = [],
          correctedData = \<lparr>c_title = ''Buy milk'', c_notes = None, c_whenDate = None,
            c_deadline = None, c_tags = None, c_checklistItems = None, c_projectId = None,
            c_areaId = None, c_heading = None\<rparr>\<rparr> []
       = (Inr \<lparr>cr_success = True, cr_id = ''unknown'', correctionsMade = Some []\<rparr>,
          [EnsureRunning, OpenUrl ''things:///add?title=Buy%20milk'', Sleep 2000, Sleep 500,
           EnsureRunning, ListScript None (Some StatusOpen) (Some ''Buy milk''),
           Sleep 1000, EnsureRunning, ListScript (Some Inbox) (Some StatusOpen) None])"
proof -
  let ?found = "[\<lparr>r_id = ''X7'', r_title = ''Buy milk and eggs'', r_completed = False\<rparr>,
                 \<lparr>r_id = ''X9'', r_title = ''Buy milk'', r_completed = False\<rparr>]"
  let ?ch1 = "\<lparr>running_fault = (\<lambda>tr. None), tags_fault = (\<lambda>tr. None),
          list_reply = (\<lambda>f s t tr. Inr (if f = None then ?found else []))\<rparr>"
  let ?ch2 = "\<lparr>running_fault = (\<lambda>tr. None), tags_fault = (\<lambda>tr. None),
          list_reply = (\<lambda>f s t tr. Inr [])\<rparr>"
  let ?e = "\<lparr>auth_token = None,
          env_clock = \<lparr>now = 0, local_tza = (\<lambda>t. 0), local_tza_wall = (\<lambda>t. 0),
                        other_formats = (\<lambda>s. None)\<rparr>,
          delay_urlScheme = 2000, delay_todoSearch = 500, open_fault = (\<lambda>url. None)\<rparr>"
  let ?p = "\<lparr>c_title = ''Buy milk'', c_notes = None, c_whenDate = None,
            c_deadline = None, c_tags = None, c_checklistItems = None, c_projectId = None,
            c_areaId = None, c_heading = None\<rparr>"
  let ?r = "\<lparr>hasCorrections = False, corrections = [], correctedData = ?p\<rparr>"
  have url: "createTodo_url ?e (createParams_of ?p) = ''things:///add?title=Buy%20milk''"
    by code_simp
  have o: "\<forall>url. open_fault ?e url = None" by simp
  have r1: "\<forall>tr'. running_fault ?ch1 tr' = None" and t1: "\<forall>tr'. tags_fault ?ch1 tr' = None"
    and n1: "\<forall>tr'. list_reply ?ch1 None (Some StatusOpen) (Some (c_title (correctedData ?r))) tr'
               = Inr ?found"
    and b1: "\<forall>tr'. list_reply ?ch1 (Some Inbox) (Some StatusOpen) None tr' = Inr []"
    by simp_all
  have r2: "\<forall>tr'. running_fault ?ch2 tr' = None" and t2: "\<forall>tr'. tags_fault ?ch2 tr' = None"
    and n2: "\<forall>tr'. list_reply ?ch2 None (Some StatusOpen) (Some (c_title (correctedData ?r))) tr'
               = Inr []"
    and b2: "\<forall>tr'. list_reply ?ch2 (Some Inbox) (Some StatusOpen) None tr' = Inr []"
    by simp_all
  have first: "fst (createTodo ?ch1 ?e ?r [])
                 = Inr \<lparr>cr_success = True, cr_id = ''X9'', correctionsMade = None\<rparr>"
    using createTodo_recovery [OF r1 t1 o n1 b1, of "[]" "[]", THEN conjunct1]
    by (simp add: found_result_def)
  have second: "createTodo ?ch2 ?e ?r []
       = (Inr \<lparr>cr_success = True, cr_id = ''unknown'', correctionsMade = Some []\<rparr>,
          [EnsureRunning, OpenUrl ''things:///add?title=Buy%20milk'', Sleep 2000, Sleep 500,
           EnsureRunning, ListScript None (Some StatusOpen) (Some ''Buy milk''),
           Sleep 1000, EnsureRunning, ListScript (Some Inbox) (Some StatusOpen) None])"
    using createTodo_recovery [OF r2 t2 o n2 b2, of "[]" "[]", THEN conjunct1]
    by (simp add: unknown_result_def url)
  show ?thesis using r1 first second by simp
qed

section \<open>Date normalisation\<close>


















section \<open>Removing tags\<close>

























end
